theory Spec2Isabelle
  imports Main
begin

section \<open>Entities and collaborators of the problem service\<close>

text \<open>
  The model follows the class \<^verbatim>\<open>ProblemService\<close> of the problem module; line numbers are
  those of its source file.
  Entity classes become records, enums become datatypes, a nullable value becomes an
  \<open>option\<close> (\<open>None\<close> is JavaScript's \<^verbatim>\<open>null\<close>/\<^verbatim>\<open>undefined\<close>).
  Field \<^verbatim>\<open>id\<close> is written \<open>user_id\<close>, \<open>problem_id\<close>, \<open>tag_id\<close>, because
  \<open>id\<close> is the identity function of HOL; field \<^verbatim>\<open>type\<close> is \<open>problem_type\<close>, and field
  \<^verbatim>\<open>locale\<close> of a localized content is \<open>contentLocale\<close> or \<open>requestLocale\<close>.
\<close>

type_synonym Locale = string
type_synonym ProblemType = string

datatype ProblemPermissionType = VIEW | MODIFY | MANAGE_PERMISSION | MANAGE_PUBLICNESS | DELETE

datatype ProblemPermissionLevel = READ | WRITE

text \<open>\<^verbatim>\<open>enum ProblemPermissionLevel { READ = 1, WRITE = 2 }\<close>\<close>

fun levelValue :: "ProblemPermissionLevel \<Rightarrow> nat" where
  "levelValue READ = 1"
| "levelValue WRITE = 2"

record UserEntity =
  user_id :: nat
  isAdmin :: bool

record ProblemEntity =
  problem_id :: nat
  displayId :: "int option"
  problem_type :: ProblemType
  isPublic :: bool
  ownerId :: nat
  locales :: "Locale list"
  submissionCount :: int
  acceptedSubmissionCount :: int

text \<open>
  The enums \<^verbatim>\<open>UserPrivilegeType\<close> and \<^verbatim>\<open>PermissionObjectType\<close> are declared in other
  modules; the service uses one member of each, the others are kept apart by name.
\<close>

datatype UserPrivilegeType = MANAGE_PROBLEM | OtherPrivilege string

datatype PermissionObjectType = PROBLEM | OtherObject string

datatype SubjectKind = UserSubject | GroupSubject

record PermissionGrant =
  subjectId :: nat
  subjectKind :: SubjectKind
  objectId :: nat
  objectKind :: PermissionObjectType
  level :: ProblemPermissionLevel

record Preference =
  allowOwnerManageProblemPermission :: bool
  allowOwnerDeleteProblem :: bool
  allowEveryoneCreateProblem :: bool

text \<open>
  What the injected services of the permission check read: the privilege grants
  (user id, privilege), the permission grants, the group memberships (user id, group id)
  and the application preference of \<^verbatim>\<open>configService.config.preference\<close>.
\<close>

record Services =
  privileges :: "(nat \<times> UserPrivilegeType) list"
  grants :: "PermissionGrant list"
  memberships :: "(nat \<times> nat) list"
  preference :: Preference

text \<open>
  Modelled from the spec: \<^verbatim>\<open>UserPrivilegeService.userHasPrivilege\<close> belongs to the
  user module, whose source is not at hand. Section 6: "privilege check
  \<^verbatim>\<open>hasPrivilege(user, privilegeKind) -> bool\<close>". The user holds the privilege when a
  privilege grant for the user's id is stored.
\<close>

definition userHasPrivilege :: "Services \<Rightarrow> UserEntity \<Rightarrow> UserPrivilegeType \<Rightarrow> bool" where
  "userHasPrivilege sv user privilegeType =
     ((user_id user, privilegeType) \<in> set (privileges sv))"

text \<open>
  Modelled from the spec: \<^verbatim>\<open>PermissionService.userOrItsGroupsHavePermission\<close> belongs
  to the permission module, whose source is not at hand. Section 4.1: "READ and WRITE
  ACL levels are ordered (WRITE satisfies a READ requirement). ACL lookup must union
  direct subject grants with grants via every group the actor belongs to, taking the
  maximum level found." The maximum level found reaches the required level exactly when
  some grant found does.
\<close>

definition grantApplies ::
  "Services \<Rightarrow> UserEntity \<Rightarrow> nat \<Rightarrow> PermissionObjectType \<Rightarrow> PermissionGrant \<Rightarrow> bool" where
  "grantApplies sv user oid kind g =
     (objectId g = oid \<and> objectKind g = kind \<and>
      (case subjectKind g of
         UserSubject \<Rightarrow> subjectId g = user_id user
       | GroupSubject \<Rightarrow> (user_id user, subjectId g) \<in> set (memberships sv)))"

definition userOrItsGroupsHavePermission ::
  "Services \<Rightarrow> UserEntity \<Rightarrow> nat \<Rightarrow> PermissionObjectType \<Rightarrow> ProblemPermissionLevel \<Rightarrow> bool" where
  "userOrItsGroupsHavePermission sv user oid kind minLevel =
     list_ex (\<lambda>g. grantApplies sv user oid kind g \<and> levelValue minLevel \<le> levelValue (level g))
       (grants sv)"

section \<open>The permission resolver\<close>

text \<open>
  \<^verbatim>\<open>userHasPermission(user, problem, type)\<close>, lines 112-171. \<^verbatim>\<open>!user\<close> is \<open>user = None\<close>.
  The checks are pure reads here, so an \<^verbatim>\<open>await\<close> is the call itself.
\<close>

fun userHasPermission ::
  "Services \<Rightarrow> UserEntity option \<Rightarrow> ProblemEntity \<Rightarrow> ProblemPermissionType \<Rightarrow> bool" where
  "userHasPermission sv user problem VIEW =
     (if isPublic problem then True
      else (case user of
        None \<Rightarrow> False
      | Some u \<Rightarrow>
          if user_id u = ownerId problem then True
          else if isAdmin u then True
          else if userHasPrivilege sv u MANAGE_PROBLEM then True
          else userOrItsGroupsHavePermission sv u (problem_id problem) PROBLEM READ))"
| "userHasPermission sv user problem MODIFY =
     (case user of
        None \<Rightarrow> False
      | Some u \<Rightarrow>
          if user_id u = ownerId problem then True
          else if isAdmin u then True
          else if userHasPrivilege sv u MANAGE_PROBLEM then True
          else userOrItsGroupsHavePermission sv u (problem_id problem) PROBLEM WRITE)"
| "userHasPermission sv user problem MANAGE_PERMISSION =
     (case user of
        None \<Rightarrow> False
      | Some u \<Rightarrow>
          if user_id u = ownerId problem \<and> allowOwnerManageProblemPermission (preference sv)
          then True
          else if isAdmin u then True
          else if userHasPrivilege sv u MANAGE_PROBLEM then True
          else False)"
| "userHasPermission sv user problem MANAGE_PUBLICNESS =
     (case user of
        None \<Rightarrow> False
      | Some u \<Rightarrow>
          if isAdmin u then True
          else if userHasPrivilege sv u MANAGE_PROBLEM then True
          else False)"
| "userHasPermission sv user problem DELETE =
     (case user of
        None \<Rightarrow> False
      | Some u \<Rightarrow>
          if user_id u = ownerId problem \<and> allowOwnerDeleteProblem (preference sv) then True
          else if isAdmin u then True
          else if userHasPrivilege sv u MANAGE_PROBLEM then True
          else False)"

section \<open>The store\<close>

text \<open>
  The relational store behind the TypeORM repositories. A table with a key is a map from
  the key to the row; a table that is scanned is the list of its rows. \<open>problemFiles\<close>
  is keyed by (problemId, type, filename), which the source calls a primary key
  (line 514), and holds the \<^verbatim>\<open>uuid\<close> of the row.
\<close>

datatype LocalizedContentType = PROBLEM_TITLE | PROBLEM_CONTENT | PROBLEM_TAG_NAME

type_synonym ProblemFileType = string
type_synonym ProblemSampleData = "(string \<times> string) list"
type_synonym ProblemJudgeInfo = string

record ProblemTagEntity =
  tag_id :: nat
  color :: string
  tag_locales :: "Locale list"

record FileEntity =
  uuid :: string
  sha256 :: string
  file_size :: nat
  referenceCount :: nat

record Database =
  problems :: "ProblemEntity list"
  nextProblemId :: nat
  problemJudgeInfos :: "nat \<rightharpoonup> ProblemJudgeInfo"
  problemSamples :: "nat \<rightharpoonup> ProblemSampleData"
  localizedContents :: "nat \<times> LocalizedContentType \<times> Locale \<rightharpoonup> string"
  problemTagRows :: "ProblemTagEntity list"
  problemTagMaps :: "(nat \<times> nat) list"
  problemFiles :: "nat \<times> ProblemFileType \<times> string \<rightharpoonup> string"
  files :: "FileEntity list"

text \<open>The statements the service sends to the store that write.\<close>

datatype Statement =
    SaveProblem ProblemEntity
  | SaveProblemJudgeInfo nat ProblemJudgeInfo
  | SaveProblemSample nat ProblemSampleData
  | UpsertLocalizedContent nat LocalizedContentType Locale string
  | DeleteLocalizedContent nat LocalizedContentType "Locale option"
  | DeleteProblemTagMaps nat
  | InsertProblemTagMaps "(nat \<times> nat) list"
  | SaveProblemFile nat ProblemFileType string string
  | UpdateProblemFileFilename nat ProblemFileType string string string
  | ReferenceFile string
  | DereferenceFile string

definition saveProblemRow :: "ProblemEntity \<Rightarrow> ProblemEntity list \<Rightarrow> ProblemEntity list" where
  "saveProblemRow p rows =
     (if list_ex (\<lambda>q. problem_id q = problem_id p) rows
      then map (\<lambda>q. if problem_id q = problem_id p then p else q) rows
      else rows @ [p])"

definition referenceRow :: "string \<Rightarrow> FileEntity list \<Rightarrow> FileEntity list" where
  "referenceRow u rows =
     map (\<lambda>f. if uuid f = u then f\<lparr>referenceCount := referenceCount f + 1\<rparr> else f) rows"

definition dereferenceRow :: "string \<Rightarrow> FileEntity list \<Rightarrow> FileEntity list" where
  "dereferenceRow u rows =
     map (\<lambda>f. if uuid f = u then f\<lparr>referenceCount := referenceCount f - 1\<rparr> else f)
       (filter (\<lambda>f. \<not> (uuid f = u \<and> referenceCount f \<le> 1)) rows)"

text \<open>
  The effect of a statement the store accepts. \<open>SaveProblem\<close> on a row whose id is new
  inserts it and moves the id counter past it. \<open>DeleteLocalizedContent\<close> with no locale
  deletes every locale of (objectId, type). \<open>UpdateProblemFileFilename\<close> is
  \<^verbatim>\<open>UPDATE ... SET filename = newFilename\<close> on the row that matches every column of the
  entity found.
\<close>

fun applyStatement :: "Statement \<Rightarrow> Database \<Rightarrow> Database" where
  "applyStatement (SaveProblem p) db =
     db\<lparr>problems := saveProblemRow p (problems db),
        nextProblemId := max (nextProblemId db) (Suc (problem_id p))\<rparr>"
| "applyStatement (SaveProblemJudgeInfo pid j) db =
     db\<lparr>problemJudgeInfos := (problemJudgeInfos db)(pid \<mapsto> j)\<rparr>"
| "applyStatement (SaveProblemSample pid d) db =
     db\<lparr>problemSamples := (problemSamples db)(pid \<mapsto> d)\<rparr>"
| "applyStatement (UpsertLocalizedContent oid t l d) db =
     db\<lparr>localizedContents := (localizedContents db)((oid, t, l) \<mapsto> d)\<rparr>"
| "applyStatement (DeleteLocalizedContent oid t lo) db =
     db\<lparr>localizedContents :=
          (\<lambda>k. if fst k = oid \<and> fst (snd k) = t \<and> (lo = None \<or> lo = Some (snd (snd k)))
               then None else localizedContents db k)\<rparr>"
| "applyStatement (DeleteProblemTagMaps pid) db =
     db\<lparr>problemTagMaps := filter (\<lambda>r. fst r \<noteq> pid) (problemTagMaps db)\<rparr>"
| "applyStatement (InsertProblemTagMaps rows) db =
     db\<lparr>problemTagMaps := problemTagMaps db @ rows\<rparr>"
| "applyStatement (SaveProblemFile pid t f u) db =
     db\<lparr>problemFiles := (problemFiles db)((pid, t, f) \<mapsto> u)\<rparr>"
| "applyStatement (UpdateProblemFileFilename pid t f u nf) db =
     (if problemFiles db (pid, t, f) = Some u
      then db\<lparr>problemFiles := ((problemFiles db)((pid, t, f) := None))((pid, t, nf) \<mapsto> u)\<rparr>
      else db)"
| "applyStatement (ReferenceFile u) db = db\<lparr>files := referenceRow u (files db)\<rparr>"
| "applyStatement (DereferenceFile u) db = db\<lparr>files := dereferenceRow u (files db)\<rparr>"

text \<open>
  The constraints of the store that the service relies on: a non-null \<open>displayId\<close> is
  held by at most one problem (section 3 of the specification; the \<^verbatim>\<open>catch\<close> of
  \<^verbatim>\<open>setProblemDisplayId\<close> expects the violation), and the key of a problem file is unique,
  so a row cannot be renamed onto the key of another row.
\<close>

fun violatesConstraint :: "Statement \<Rightarrow> Database \<Rightarrow> bool" where
  "violatesConstraint (SaveProblem p) db =
     (displayId p \<noteq> None \<and>
      list_ex (\<lambda>q. problem_id q \<noteq> problem_id p \<and> displayId q = displayId p) (problems db))"
| "violatesConstraint (UpdateProblemFileFilename pid t f u nf) db =
     (nf \<noteq> f \<and> problemFiles db (pid, t, f) = Some u \<and> problemFiles db (pid, t, nf) \<noteq> None)"
| "violatesConstraint s db = False"

datatype Error = DuplicateEntry | StorageFailure | TypeError

text \<open>
  A statement runs on the \<^verbatim>\<open>transactionalEntityManager\<close> of the open transaction, or on
  the connection itself (a repository, or a service called without the manager), where
  it is committed at once.
\<close>

datatype EntityManager = TransactionalEntityManager | ConnectionManager

text \<open>
  \<open>committed\<close> is what every connection sees; \<open>pending\<close> are the statements of the open
  transaction, applied on commit and dropped on rollback; \<open>issued\<close> records every
  statement sent to the store, in order, with the manager it was sent on.
\<close>

record World =
  committed :: Database
  pending :: "Statement list"
  issued :: "(EntityManager \<times> Statement) list"

text \<open>
  Isolation is READ COMMITTED: the transaction reads the committed rows under its own
  pending statements; the connection reads the committed rows only.
\<close>

fun view :: "EntityManager \<Rightarrow> World \<Rightarrow> Database" where
  "view TransactionalEntityManager w = foldl (\<lambda>db s. applyStatement s db) (committed w) (pending w)"
| "view ConnectionManager w = committed w"

text \<open>
  Sending a statement. \<open>fails\<close> says which statements the store fails for a reason of
  its own (connection lost, lock wait timeout, deadlock); such a failure comes before any
  constraint is checked. Queries are taken to be answered.
\<close>

definition execute ::
  "(Statement \<Rightarrow> bool) \<Rightarrow> EntityManager \<Rightarrow> Statement \<Rightarrow> World \<Rightarrow> (Error + unit) \<times> World" where
  "execute fails m s w =
     (let w1 = w\<lparr>issued := issued w @ [(m, s)]\<rparr> in
      if fails s then (Inl StorageFailure, w1)
      else if violatesConstraint s (view m w) then (Inl DuplicateEntry, w1)
      else (case m of
              TransactionalEntityManager \<Rightarrow> (Inr (), w1\<lparr>pending := pending w @ [s]\<rparr>)
            | ConnectionManager \<Rightarrow> (Inr (), w1\<lparr>committed := applyStatement s (committed w)\<rparr>)))"

text \<open>\<^verbatim>\<open>await a; b\<close>: an exception of \<open>a\<close> skips \<open>b\<close>.\<close>

definition andThen ::
  "(Error + 'a) \<times> World \<Rightarrow> ('a \<Rightarrow> World \<Rightarrow> (Error + 'b) \<times> World) \<Rightarrow> (Error + 'b) \<times> World" where
  "andThen r f = (case r of (Inl e, w) \<Rightarrow> (Inl e, w) | (Inr a, w) \<Rightarrow> f a w)"

text \<open>\<^verbatim>\<open>for (const x of xs) { await step(x) }\<close>\<close>

fun forEach ::
  "('a \<Rightarrow> World \<Rightarrow> (Error + unit) \<times> World) \<Rightarrow> 'a list \<Rightarrow> World \<Rightarrow> (Error + unit) \<times> World" where
  "forEach step [] w = (Inr (), w)"
| "forEach step (x # xs) w =
     (case step x w of (Inl e, w1) \<Rightarrow> (Inl e, w1) | (Inr _, w1) \<Rightarrow> forEach step xs w1)"

text \<open>
  \<^verbatim>\<open>connection.transaction("READ COMMITTED", body)\<close>: the body runs on a fresh
  transaction; when it returns, the pending statements are committed; when it throws,
  they are rolled back and the exception goes on.
\<close>

definition beginTransaction :: "World \<Rightarrow> World" where
  "beginTransaction w = w\<lparr>pending := []\<rparr>"

definition commitTransaction :: "World \<Rightarrow> World" where
  "commitTransaction w = w\<lparr>committed := view TransactionalEntityManager w, pending := []\<rparr>"

definition rollbackTransaction :: "World \<Rightarrow> World" where
  "rollbackTransaction w = w\<lparr>pending := []\<rparr>"

definition finish :: "Error + 'a \<Rightarrow> World \<Rightarrow> World" where
  "finish r w = (case r of Inl e \<Rightarrow> rollbackTransaction w | Inr a \<Rightarrow> commitTransaction w)"

definition transaction ::
  "(World \<Rightarrow> (Error + 'a) \<times> World) \<Rightarrow> World \<Rightarrow> (Error + 'a) \<times> World" where
  "transaction body w = (case body (beginTransaction w) of (r, w1) \<Rightarrow> (r, finish r w1))"

section \<open>Collaborating services\<close>

text \<open>The optional parameter \<^verbatim>\<open>transactionalEntityManager?\<close> of a service method.\<close>

fun managerOf :: "EntityManager option \<Rightarrow> EntityManager" where
  "managerOf None = ConnectionManager"
| "managerOf (Some m) = m"

text \<open>
  Modelled from the spec: \<^verbatim>\<open>LocalizedContentService\<close> belongs to the localized-content
  module, whose source is not at hand. Section 6:
  "\<^verbatim>\<open>createOrUpdate(ownerId, kind, locale, text, tx?)\<close>,
  \<^verbatim>\<open>delete(ownerId, kind, locale|null, tx?)\<close> (null locale means all locales)"; the
  store is keyed by (ownerEntityId, contentKind, locale). Without \<^verbatim>\<open>tx\<close> the statement
  runs on the connection.
\<close>

definition localizedContentService_createOrUpdate ::
  "(Statement \<Rightarrow> bool) \<Rightarrow> nat \<Rightarrow> LocalizedContentType \<Rightarrow> Locale \<Rightarrow> string \<Rightarrow>
   EntityManager option \<Rightarrow> World \<Rightarrow> (Error + unit) \<times> World" where
  "localizedContentService_createOrUpdate fails oid t l d tx w =
     execute fails (managerOf tx) (UpsertLocalizedContent oid t l d) w"

definition localizedContentService_delete ::
  "(Statement \<Rightarrow> bool) \<Rightarrow> nat \<Rightarrow> LocalizedContentType \<Rightarrow> Locale option \<Rightarrow>
   EntityManager option \<Rightarrow> World \<Rightarrow> (Error + unit) \<times> World" where
  "localizedContentService_delete fails oid t lo tx w =
     execute fails (managerOf tx) (DeleteLocalizedContent oid t lo) w"

text \<open>
  Modelled from the spec: \<^verbatim>\<open>FileService\<close> belongs to the file module, whose source is
  not at hand. Section 6:
  "\<^verbatim>\<open>tryReference(contentHash, tx) -> handle|null\<close>, \<^verbatim>\<open>dereference(handle, tx) -> void\<close>";
  section 4.4: acquiring a reference fails when "the store reports the content does not
  exist", and releasing one is "decrementing that content's count, which may delete the
  underlying blob at zero".
\<close>

definition fileService_tryReferenceFile ::
  "(Statement \<Rightarrow> bool) \<Rightarrow> string \<Rightarrow> EntityManager \<Rightarrow> World \<Rightarrow> (Error + string option) \<times> World" where
  "fileService_tryReferenceFile fails h m w =
     (case find (\<lambda>f. sha256 f = h) (files (view m w)) of
        None \<Rightarrow> (Inr None, w)
      | Some f \<Rightarrow> andThen (execute fails m (ReferenceFile (uuid f)) w)
                   (\<lambda>_ w1. (Inr (Some (uuid f)), w1)))"

definition fileService_dereferenceFile ::
  "(Statement \<Rightarrow> bool) \<Rightarrow> string \<Rightarrow> EntityManager \<Rightarrow> World \<Rightarrow> (Error + unit) \<times> World" where
  "fileService_dereferenceFile fails u m w = execute fails m (DereferenceFile u) w"

section \<open>The operations of the problem service\<close>

text \<open>
  Request objects. A statement given to \<^verbatim>\<open>createProblem\<close> carries a title and content
  sections for every locale; in a request to \<^verbatim>\<open>updateProblemStatement\<close> either may be
  null (lines 292 and 299 test for it), as may the samples (line 262). \<open>'c\<close> is the
  type of the content sections, which the service only hands to \<^verbatim>\<open>JSON.stringify\<close>.
\<close>

record 'c ProblemLocalizedContentDto =
  contentLocale :: Locale
  title :: string
  contentSections :: 'c

record 'c ProblemStatementDto =
  localizedContents_of :: "'c ProblemLocalizedContentDto list"
  samples_of :: ProblemSampleData

record 'c UpdateProblemRequestLocalizedContentDto =
  requestLocale :: Locale
  requestTitle :: "string option"
  requestContentSections :: "'c option"

record 'c UpdateProblemStatementRequestDto =
  requestLocalizedContents :: "'c UpdateProblemRequestLocalizedContentDto list"
  requestSamples :: "ProblemSampleData option"

subsection \<open>Lookups by id, lines 80-86 and 540-546\<close>

text \<open>
  \<^verbatim>\<open>Array.from(new Set(xs))\<close> keeps the first occurrence of every element;
  \<^verbatim>\<open>Object.fromEntries\<close> lets a later entry replace an earlier one with the same key; a key
  that is not in the object reads as \<^verbatim>\<open>undefined\<close>, here \<open>None\<close>.
\<close>

definition uniqueIds_of :: "nat list \<Rightarrow> nat list" where
  "uniqueIds_of xs = rev (remdups (rev xs))"

definition fromEntries :: "('k \<times> 'v) list \<Rightarrow> ('k \<rightharpoonup> 'v)" where
  "fromEntries es = foldl (\<lambda>m e. m(fst e \<mapsto> snd e)) Map.empty es"

text \<open>\<^verbatim>\<open>repository.findByIds(ids)\<close>: the rows whose id is among \<open>ids\<close>, in storage order.\<close>

definition findByIds :: "('r \<Rightarrow> nat) \<Rightarrow> 'r list \<Rightarrow> nat list \<Rightarrow> 'r list" where
  "findByIds key rows ids = filter (\<lambda>r. key r \<in> set ids) rows"

definition findProblemsByExistingIds :: "nat list \<Rightarrow> World \<Rightarrow> ProblemEntity option list" where
  "findProblemsByExistingIds problemIds w =
     (if length problemIds = 0 then []
      else
        let uniqueIds = uniqueIds_of problemIds;
            records = findByIds problem_id (problems (committed w)) uniqueIds;
            m = fromEntries (map (\<lambda>r. (problem_id r, r)) records)
        in map (\<lambda>problemId. m problemId) problemIds)"

definition findProblemTagsByExistingIds :: "nat list \<Rightarrow> World \<Rightarrow> ProblemTagEntity option list" where
  "findProblemTagsByExistingIds problemTagIds w =
     (if length problemTagIds = 0 then []
      else
        let uniqueIds = uniqueIds_of problemTagIds;
            records = findByIds tag_id (problemTagRows (committed w)) uniqueIds;
            m = fromEntries (map (\<lambda>r. (tag_id r, r)) records)
        in map (\<lambda>problemId. m problemId) problemTagIds)"

subsection \<open>\<^verbatim>\<open>setProblemTags\<close>, lines 638-653\<close>

definition setProblemTags ::
  "(Statement \<Rightarrow> bool) \<Rightarrow> ProblemEntity \<Rightarrow> ProblemTagEntity list \<Rightarrow> EntityManager \<Rightarrow>
   World \<Rightarrow> (Error + unit) \<times> World" where
  "setProblemTags fails problem problemTags transactionalEntityManager w =
     andThen (execute fails transactionalEntityManager (DeleteProblemTagMaps (problem_id problem)) w)
       (\<lambda>_ w1.
          if length problemTags = 0 then (Inr (), w1)
          else execute fails transactionalEntityManager
                 (InsertProblemTagMaps
                    (map (\<lambda>problemTag. (problem_id problem, tag_id problemTag)) problemTags))
                 w1)"

subsection \<open>\<^verbatim>\<open>createProblem\<close>, lines 207-254\<close>

text \<open>
  The loop body of lines 233-248: both calls pass the \<^verbatim>\<open>transactionalEntityManager\<close>.
\<close>

definition createLocalizedContent ::
  "(Statement \<Rightarrow> bool) \<Rightarrow> ('c \<Rightarrow> string) \<Rightarrow> nat \<Rightarrow> 'c ProblemLocalizedContentDto \<Rightarrow>
   World \<Rightarrow> (Error + unit) \<times> World" where
  "createLocalizedContent fails stringify pid localizedContent w =
     andThen
       (localizedContentService_createOrUpdate fails pid PROBLEM_TITLE (contentLocale localizedContent)
          (title localizedContent) (Some TransactionalEntityManager) w)
       (\<lambda>_ w1.
          localizedContentService_createOrUpdate fails pid PROBLEM_CONTENT
            (contentLocale localizedContent) (stringify (contentSections localizedContent))
            (Some TransactionalEntityManager) w1)"

text \<open>
  The store assigns the id of the new row on the first \<^verbatim>\<open>save\<close>. The counters of a new
  row are 0. \<open>getDefaultJudgeInfo\<close> is \<^verbatim>\<open>problemJudgeInfoService.getDefaultJudgeInfo\<close>,
  \<open>stringify\<close> is \<^verbatim>\<open>JSON.stringify\<close>.
\<close>

definition createProblem ::
  "(Statement \<Rightarrow> bool) \<Rightarrow> ('c \<Rightarrow> string) \<Rightarrow> (ProblemType \<Rightarrow> ProblemJudgeInfo) \<Rightarrow>
   UserEntity \<Rightarrow> ProblemType \<Rightarrow> 'c ProblemStatementDto \<Rightarrow> ProblemTagEntity list \<Rightarrow>
   World \<Rightarrow> (Error + ProblemEntity) \<times> World" where
  "createProblem fails stringify getDefaultJudgeInfo owner type statement tags w =
     transaction (\<lambda>w0.
       let problem =
             \<lparr>problem_id = nextProblemId (view TransactionalEntityManager w0),
              displayId = None,
              problem_type = type,
              isPublic = False,
              ownerId = user_id owner,
              locales = map contentLocale (localizedContents_of statement),
              submissionCount = 0,
              acceptedSubmissionCount = 0\<rparr>
       in
       andThen (execute fails TransactionalEntityManager (SaveProblem problem) w0) (\<lambda>_ w1.
       andThen (execute fails TransactionalEntityManager
                  (SaveProblemJudgeInfo (problem_id problem) (getDefaultJudgeInfo type)) w1) (\<lambda>_ w2.
       andThen (execute fails TransactionalEntityManager
                  (SaveProblemSample (problem_id problem) (samples_of statement)) w2) (\<lambda>_ w3.
       andThen (forEach (createLocalizedContent fails stringify (problem_id problem))
                  (localizedContents_of statement) w3) (\<lambda>_ w4.
       andThen (setProblemTags fails problem tags TransactionalEntityManager w4) (\<lambda>_ w5.
       (Inr problem, w5))))))) w"

subsection \<open>\<^verbatim>\<open>updateProblemStatement\<close>, lines 256-314\<close>

text \<open>
  Lines 262-268. \<^verbatim>\<open>findOne\<close> yields \<^verbatim>\<open>undefined\<close> when the problem has no sample row, and
  the assignment to \<^verbatim>\<open>problemSample.data\<close> then throws a TypeError.
\<close>

definition updateSample ::
  "(Statement \<Rightarrow> bool) \<Rightarrow> ProblemEntity \<Rightarrow> ProblemSampleData option \<Rightarrow> World \<Rightarrow>
   (Error + unit) \<times> World" where
  "updateSample fails problem samples w =
     (case samples of
        None \<Rightarrow> (Inr (), w)
      | Some d \<Rightarrow>
          (case problemSamples (view TransactionalEntityManager w) (problem_id problem) of
             None \<Rightarrow> (Inl TypeError, w)
           | Some _ \<Rightarrow>
               execute fails TransactionalEntityManager
                 (SaveProblemSample (problem_id problem) d) w))"

text \<open>The loop body of lines 273-286: both deletions pass the manager.\<close>

definition deleteLocale ::
  "(Statement \<Rightarrow> bool) \<Rightarrow> ProblemEntity \<Rightarrow> Locale \<Rightarrow> World \<Rightarrow> (Error + unit) \<times> World" where
  "deleteLocale fails problem deletingLocale w =
     andThen
       (localizedContentService_delete fails (problem_id problem) PROBLEM_TITLE
          (Some deletingLocale) (Some TransactionalEntityManager) w)
       (\<lambda>_ w1.
          localizedContentService_delete fails (problem_id problem) PROBLEM_CONTENT
            (Some deletingLocale) (Some TransactionalEntityManager) w1)"

text \<open>
  The loop body of lines 290-306: "Update if not null". Neither call passes the
  \<^verbatim>\<open>transactionalEntityManager\<close>: the last argument is left out.
\<close>

definition updateLocalizedContent ::
  "(Statement \<Rightarrow> bool) \<Rightarrow> ('c \<Rightarrow> string) \<Rightarrow> ProblemEntity \<Rightarrow>
   'c UpdateProblemRequestLocalizedContentDto \<Rightarrow> World \<Rightarrow> (Error + unit) \<times> World" where
  "updateLocalizedContent fails stringify problem localizedContent w =
     andThen
       (case requestTitle localizedContent of
          None \<Rightarrow> (Inr (), w)
        | Some t \<Rightarrow>
            localizedContentService_createOrUpdate fails (problem_id problem) PROBLEM_TITLE
              (requestLocale localizedContent) t None w)
       (\<lambda>_ w1.
          case requestContentSections localizedContent of
            None \<Rightarrow> (Inr (), w1)
          | Some c \<Rightarrow>
              localizedContentService_createOrUpdate fails (problem_id problem) PROBLEM_CONTENT
                (requestLocale localizedContent) (stringify c) None w1)"

text \<open>
  The callback of the transaction. The caller's \<^verbatim>\<open>problem\<close> object is assigned to at
  line 288, so the object as the callback leaves it is returned beside the outcome.
\<close>

definition updateProblemStatement_callback ::
  "(Statement \<Rightarrow> bool) \<Rightarrow> ('c \<Rightarrow> string) \<Rightarrow> ProblemEntity \<Rightarrow>
   'c UpdateProblemStatementRequestDto \<Rightarrow> ProblemTagEntity list \<Rightarrow> World \<Rightarrow>
   (Error + unit) \<times> ProblemEntity \<times> World" where
  "updateProblemStatement_callback fails stringify problem request tags w =
     (case updateSample fails problem (requestSamples request) w of
        (Inl e, w1) \<Rightarrow> (Inl e, problem, w1)
      | (Inr _, w1) \<Rightarrow>
          let newLocales = map requestLocale (requestLocalizedContents request);
              deletingLocales = filter (\<lambda>l. l \<notin> set newLocales) (locales problem)
          in
          (case forEach (deleteLocale fails problem) deletingLocales w1 of
             (Inl e, w2) \<Rightarrow> (Inl e, problem, w2)
           | (Inr _, w2) \<Rightarrow>
               let problem1 = problem\<lparr>locales := newLocales\<rparr> in
               (case
                  andThen (forEach (updateLocalizedContent fails stringify problem1)
                             (requestLocalizedContents request) w2) (\<lambda>_ w3.
                  andThen (setProblemTags fails problem1 tags TransactionalEntityManager w3) (\<lambda>_ w4.
                  execute fails TransactionalEntityManager (SaveProblem problem1) w4))
                of (r, w5) \<Rightarrow> (r, problem1, w5))))"

definition updateProblemStatement ::
  "(Statement \<Rightarrow> bool) \<Rightarrow> ('c \<Rightarrow> string) \<Rightarrow> ProblemEntity \<Rightarrow>
   'c UpdateProblemStatementRequestDto \<Rightarrow> ProblemTagEntity list \<Rightarrow> World \<Rightarrow>
   (Error + bool) \<times> ProblemEntity \<times> World" where
  "updateProblemStatement fails stringify problem request tags w =
     (case updateProblemStatement_callback fails stringify problem request tags
             (beginTransaction w) of
        (r, problem1, w1) \<Rightarrow>
          ((case r of Inl e \<Rightarrow> Inl e | Inr _ \<Rightarrow> Inr True), problem1, finish r w1))"

subsection \<open>\<^verbatim>\<open>setProblemDisplayId\<close>, lines 401-419\<close>

text \<open>
  \<^verbatim>\<open>!displayId\<close> holds for null and for 0. \<^verbatim>\<open>repository.count({ displayId })\<close> counts
  the committed rows with that \<open>displayId\<close> (for null, the rows without one). The
  \<^verbatim>\<open>catch\<close> does not look at the exception \<^verbatim>\<open>e\<close> before the count.
\<close>

definition countByDisplayId :: "int option \<Rightarrow> World \<Rightarrow> nat" where
  "countByDisplayId d w = length (filter (\<lambda>q. displayId q = d) (problems (committed w)))"

definition setProblemDisplayId ::
  "(Statement \<Rightarrow> bool) \<Rightarrow> ProblemEntity \<Rightarrow> int option \<Rightarrow> World \<Rightarrow>
   (Error + bool) \<times> ProblemEntity \<times> World" where
  "setProblemDisplayId fails problem displayId0 w =
     (let displayId1 = (if displayId0 = None \<or> displayId0 = Some 0 then None else displayId0) in
      if displayId problem = displayId1 then (Inr True, problem, w)
      else
        let problem1 = problem\<lparr>displayId := displayId1\<rparr> in
        (case execute fails ConnectionManager (SaveProblem problem1) w of
           (Inr _, w1) \<Rightarrow> (Inr True, problem1, w1)
         | (Inl e, w1) \<Rightarrow>
             if countByDisplayId displayId1 w1 \<noteq> 0 then (Inr False, problem1, w1)
             else (Inl e, problem1, w1)))"

subsection \<open>\<^verbatim>\<open>addProblemFile\<close>, lines 428-460\<close>

text \<open>
  \<^verbatim>\<open>!uuid\<close> holds for null and for the empty string. The existing row is looked up on
  \<^verbatim>\<open>problemFileRepository\<close>, that is on the connection (line 440).
\<close>

definition addProblemFile ::
  "(Statement \<Rightarrow> bool) \<Rightarrow> ProblemEntity \<Rightarrow> string \<Rightarrow> ProblemFileType \<Rightarrow> string \<Rightarrow> World \<Rightarrow>
   (Error + bool) \<times> World" where
  "addProblemFile fails problem h type filename w =
     transaction (\<lambda>w0.
       andThen (fileService_tryReferenceFile fails h TransactionalEntityManager w0) (\<lambda>r w1.
         case r of
           None \<Rightarrow> (Inr False, w1)
         | Some u \<Rightarrow>
             if u = [] then (Inr False, w1)
             else
               andThen
                 (case problemFiles (view ConnectionManager w1) (problem_id problem, type, filename) of
                    Some old \<Rightarrow> fileService_dereferenceFile fails old TransactionalEntityManager w1
                  | None \<Rightarrow> (Inr (), w1))
                 (\<lambda>_ w2.
                    andThen
                      (execute fails TransactionalEntityManager
                         (SaveProblemFile (problem_id problem) type filename u) w2)
                      (\<lambda>_ w3. (Inr True, w3))))) w"

subsection \<open>\<^verbatim>\<open>renameProblemFile\<close>, lines 500-520\<close>

definition renameProblemFile ::
  "(Statement \<Rightarrow> bool) \<Rightarrow> ProblemEntity \<Rightarrow> ProblemFileType \<Rightarrow> string \<Rightarrow> string \<Rightarrow> World \<Rightarrow>
   (Error + bool) \<times> World" where
  "renameProblemFile fails problem type filename newFilename w =
     (case problemFiles (view ConnectionManager w) (problem_id problem, type, filename) of
        None \<Rightarrow> (Inr False, w)
      | Some u \<Rightarrow>
          andThen
            (execute fails ConnectionManager
               (UpdateProblemFileFilename (problem_id problem) type filename u newFilename) w)
            (\<lambda>_ w1. (Inr True, w1)))"

section \<open>What a statement update asks for\<close>

text \<open>
  The vocabulary of the properties of \<^verbatim>\<open>updateProblemStatement\<close> and \<^verbatim>\<open>createProblem\<close>: the
  two deletions for a removed locale, the upserts that one requested entry gives rise
  to, the non-null titles (serialised content sections) a request gives for a locale, in
  the order of the request, and the locales for which a problem has both a title row
  and a content row.
\<close>

definition deletionsOf :: "nat \<Rightarrow> Locale \<Rightarrow> Statement list" where
  "deletionsOf pid l =
     [DeleteLocalizedContent pid PROBLEM_TITLE (Some l),
      DeleteLocalizedContent pid PROBLEM_CONTENT (Some l)]"

definition upsertsOf ::
  "('c \<Rightarrow> string) \<Rightarrow> nat \<Rightarrow> 'c UpdateProblemRequestLocalizedContentDto \<Rightarrow> Statement list" where
  "upsertsOf stringify pid e =
     (case requestTitle e of
        None \<Rightarrow> []
      | Some t \<Rightarrow> [UpsertLocalizedContent pid PROBLEM_TITLE (requestLocale e) t]) @
     (case requestContentSections e of
        None \<Rightarrow> []
      | Some c \<Rightarrow> [UpsertLocalizedContent pid PROBLEM_CONTENT (requestLocale e) (stringify c)])"

definition creationsOf ::
  "('c \<Rightarrow> string) \<Rightarrow> nat \<Rightarrow> 'c ProblemLocalizedContentDto \<Rightarrow> Statement list" where
  "creationsOf stringify pid e =
     [UpsertLocalizedContent pid PROBLEM_TITLE (contentLocale e) (title e),
      UpsertLocalizedContent pid PROBLEM_CONTENT (contentLocale e) (stringify (contentSections e))]"

definition tagStatements :: "nat \<Rightarrow> ProblemTagEntity list \<Rightarrow> Statement list" where
  "tagStatements pid tags =
     DeleteProblemTagMaps pid #
     (if tags = [] then [] else [InsertProblemTagMaps (map (\<lambda>t. (pid, tag_id t)) tags)])"

definition sampleStatements :: "nat \<Rightarrow> ProblemSampleData option \<Rightarrow> Statement list" where
  "sampleStatements pid samples =
     (case samples of None \<Rightarrow> [] | Some d \<Rightarrow> [SaveProblemSample pid d])"

definition requestedTitles ::
  "'c UpdateProblemRequestLocalizedContentDto list \<Rightarrow> Locale \<Rightarrow> string list" where
  "requestedTitles req l =
     List.map_filter (\<lambda>e. if requestLocale e = l then requestTitle e else None) req"

definition requestedContents ::
  "('c \<Rightarrow> string) \<Rightarrow> 'c UpdateProblemRequestLocalizedContentDto list \<Rightarrow> Locale \<Rightarrow> string list" where
  "requestedContents stringify req l =
     List.map_filter
       (\<lambda>e. if requestLocale e = l then map_option stringify (requestContentSections e) else None)
       req"

definition localesWithContent :: "Database \<Rightarrow> nat \<Rightarrow> Locale set" where
  "localesWithContent db pid =
     {l. localizedContents db (pid, PROBLEM_TITLE, l) \<noteq> None \<and>
         localizedContents db (pid, PROBLEM_CONTENT, l) \<noteq> None}"

text \<open>
  The invariant of section 3 of the specification, for every stored problem, and what
  the store's id counter guarantees: every stored problem has an id below the counter,
  and no title or content row belongs to an id that is not yet given out.
\<close>

definition localesInvariant :: "Database \<Rightarrow> bool" where
  "localesInvariant db =
     (\<forall>q \<in> set (problems db). set (locales q) = localesWithContent db (problem_id q))"

definition idsConsistent :: "Database \<Rightarrow> bool" where
  "idsConsistent db =
     ((\<forall>q \<in> set (problems db). problem_id q < nextProblemId db) \<and>
      (\<forall>i l. nextProblemId db \<le> i \<longrightarrow>
         localizedContents db (i, PROBLEM_TITLE, l) = None \<and>
         localizedContents db (i, PROBLEM_CONTENT, l) = None))"

definition storeConsistent :: "Database \<Rightarrow> bool" where
  "storeConsistent db = (localesInvariant db \<and> idsConsistent db)"

section \<open>Small stores for the examples\<close>

definition emptyDatabase :: Database where
  "emptyDatabase =
     \<lparr>problems = [], nextProblemId = 1, problemJudgeInfos = Map.empty,
      problemSamples = Map.empty, localizedContents = Map.empty, problemTagRows = [],
      problemTagMaps = [], problemFiles = Map.empty, files = []\<rparr>"

definition idle :: "Database \<Rightarrow> World" where
  "idle db = \<lparr>committed = db, pending = [], issued = []\<rparr>"

definition problemRow :: "nat \<Rightarrow> int option \<Rightarrow> Locale list \<Rightarrow> ProblemEntity" where
  "problemRow i d ls =
     \<lparr>problem_id = i, displayId = d, problem_type = ''TRADITIONAL'', isPublic = False,
      ownerId = 1, locales = ls, submissionCount = 0, acceptedSubmissionCount = 0\<rparr>"

definition tagRow :: "nat \<Rightarrow> ProblemTagEntity" where
  "tagRow i = \<lparr>tag_id = i, color = ''red'', tag_locales = [''en'']\<rparr>"

definition noFailure :: "Statement \<Rightarrow> bool" where
  "noFailure s = False"

text \<open>
  Services for the permission examples: user 4 holds the manage-problem privilege, user 3
  is a member of group 9, and group 9 holds a WRITE grant on problem 1. Problem rows
  made by \<open>problemRow\<close> are not public and are owned by user 1.
\<close>

definition exampleServices :: Services where
  "exampleServices =
     \<lparr>privileges = [(4, MANAGE_PROBLEM)],
      grants = [\<lparr>subjectId = 9, subjectKind = GroupSubject, objectId = 1,
                 objectKind = PROBLEM, level = WRITE\<rparr>],
      memberships = [(3, 9)],
      preference = \<lparr>allowOwnerManageProblemPermission = True,
                     allowOwnerDeleteProblem = True,
                     allowEveryoneCreateProblem = False\<rparr>\<rparr>"

definition userOf :: "nat \<Rightarrow> bool \<Rightarrow> UserEntity" where
  "userOf i a = \<lparr>user_id = i, isAdmin = a\<rparr>"

text \<open>
  Problem 1 with a statement in \<open>en\<close> and in \<open>zh\<close>, tagged 5, and a request that names
  \<open>en\<close> only, with a new title and no content sections. Content sections are strings
  here, and \<^verbatim>\<open>JSON.stringify\<close> is taken as the identity.
\<close>

definition statementStore :: Database where
  "statementStore =
     emptyDatabase\<lparr>
       problems := [problemRow 1 None [''en'', ''zh'']],
       nextProblemId := 2,
       problemSamples := [1 \<mapsto> []],
       localizedContents :=
         [(1, PROBLEM_TITLE, ''en'') \<mapsto> ''Sum'', (1, PROBLEM_CONTENT, ''en'') \<mapsto> ''Add.'',
          (1, PROBLEM_TITLE, ''zh'') \<mapsto> ''He'', (1, PROBLEM_CONTENT, ''zh'') \<mapsto> ''Jia.''],
       problemTagMaps := [(1, 5)]\<rparr>"

definition titleOnlyRequest :: "string UpdateProblemStatementRequestDto" where
  "titleOnlyRequest =
     \<lparr>requestLocalizedContents =
        [\<lparr>requestLocale = ''en'', requestTitle = Some ''A+B'', requestContentSections = None\<rparr>],
      requestSamples = None\<rparr>"

text \<open>A request that names the new locale \<open>fr\<close> without a title and without content.\<close>

definition emptyLocaleRequest :: "string UpdateProblemStatementRequestDto" where
  "emptyLocaleRequest =
     \<lparr>requestLocalizedContents =
        [\<lparr>requestLocale = ''fr'', requestTitle = None, requestContentSections = None\<rparr>],
      requestSamples = None\<rparr>"

text \<open>A request that replaces the statement by one in \<open>fr\<close>.\<close>

definition frenchRequest :: "string UpdateProblemStatementRequestDto" where
  "frenchRequest =
     \<lparr>requestLocalizedContents =
        [\<lparr>requestLocale = ''fr'', requestTitle = Some ''Somme'',
          requestContentSections = Some ''Additionner.''\<rparr>],
      requestSamples = Some [(''1 2'', ''3'')]\<rparr>"

definition frenchStatement :: "string ProblemStatementDto" where
  "frenchStatement =
     \<lparr>localizedContents_of =
        [\<lparr>contentLocale = ''fr'', title = ''Somme'', contentSections = ''Additionner.''\<rparr>],
      samples_of = [(''1 2'', ''3'')]\<rparr>"

text \<open>A store that fails every insertion of tag rows, and no other statement.\<close>

fun failsTagInsert :: "Statement \<Rightarrow> bool" where
  "failsTagInsert (InsertProblemTagMaps rows) = True"
| "failsTagInsert s = False"

section \<open>Properties of the permission resolver\<close>

lemma readOrHigher:
  "userOrItsGroupsHavePermission sv u oid kind READ =
     (\<exists>g. g \<in> set (grants sv) \<and> grantApplies sv u oid kind g \<and>
          (level g = READ \<or> level g = WRITE))"
proof -
  have "\<And>l. (levelValue READ \<le> levelValue l) = (l = READ \<or> l = WRITE)"
    by (case_tac l) simp_all
  then show ?thesis
    by (auto simp: userOrItsGroupsHavePermission_def list_ex_iff)
qed

text \<open>
  C5. VIEW is decided, first true wins, by: public problem allows; no actor denies; owner
  allows; system admin allows; the global manage-problem privilege allows; a READ or
  WRITE grant on the problem, held by the actor or by one of its groups, allows;
  otherwise deny.
\<close>

theorem C5_view_precedence:
  "userHasPermission sv user problem VIEW =
     (isPublic problem \<or>
      (\<exists>u. user = Some u \<and>
         (user_id u = ownerId problem \<or> isAdmin u \<or> userHasPrivilege sv u MANAGE_PROBLEM \<or>
          (\<exists>g. g \<in> set (grants sv) \<and>
               objectId g = problem_id problem \<and> objectKind g = PROBLEM \<and>
               (level g = READ \<or> level g = WRITE) \<and>
               (subjectKind g = UserSubject \<and> subjectId g = user_id u \<or>
                subjectKind g = GroupSubject \<and>
                (user_id u, subjectId g) \<in> set (memberships sv))))))"
proof (cases user)
  case None
  then show ?thesis by simp
next
  case (Some u)
  have acl: "userOrItsGroupsHavePermission sv u (problem_id problem) PROBLEM READ =
     (\<exists>g. g \<in> set (grants sv) \<and>
           objectId g = problem_id problem \<and> objectKind g = PROBLEM \<and>
           (level g = READ \<or> level g = WRITE) \<and>
           (subjectKind g = UserSubject \<and> subjectId g = user_id u \<or>
            subjectKind g = GroupSubject \<and>
            (user_id u, subjectId g) \<in> set (memberships sv)))"
  proof -
    have "\<And>g. grantApplies sv u (problem_id problem) PROBLEM g =
       (objectId g = problem_id problem \<and> objectKind g = PROBLEM \<and>
        (subjectKind g = UserSubject \<and> subjectId g = user_id u \<or>
         subjectKind g = GroupSubject \<and> (user_id u, subjectId g) \<in> set (memberships sv)))"
      unfolding grantApplies_def by (case_tac "subjectKind g") simp_all
    then show ?thesis unfolding readOrHigher by blast
  qed
  show ?thesis
    unfolding Some using acl by simp
qed

text \<open>
  A problem that is not public, seen by nobody, by its owner, an admin, a holder of the
  privilege, a member of a group with a WRITE grant, and a stranger; and made public.
\<close>

theorem C5_view_precedence_witness:
  "\<not> userHasPermission exampleServices None (problemRow 1 None []) VIEW \<and>
   userHasPermission exampleServices None ((problemRow 1 None [])\<lparr>isPublic := True\<rparr>) VIEW \<and>
   userHasPermission exampleServices (Some (userOf 1 False)) (problemRow 1 None []) VIEW \<and>
   userHasPermission exampleServices (Some (userOf 2 True)) (problemRow 1 None []) VIEW \<and>
   userHasPermission exampleServices (Some (userOf 4 False)) (problemRow 1 None []) VIEW \<and>
   userHasPermission exampleServices (Some (userOf 3 False)) (problemRow 1 None []) VIEW \<and>
   \<not> userHasPermission exampleServices (Some (userOf 5 False)) (problemRow 1 None []) VIEW"
  using
    C5_view_precedence [of exampleServices None "problemRow 1 None []"]
    C5_view_precedence [of exampleServices None "(problemRow 1 None [])\<lparr>isPublic := True\<rparr>"]
    C5_view_precedence [of exampleServices "Some (userOf 1 False)" "problemRow 1 None []"]
    C5_view_precedence [of exampleServices "Some (userOf 2 True)" "problemRow 1 None []"]
    C5_view_precedence [of exampleServices "Some (userOf 4 False)" "problemRow 1 None []"]
    C5_view_precedence [of exampleServices "Some (userOf 3 False)" "problemRow 1 None []"]
    C5_view_precedence [of exampleServices "Some (userOf 5 False)" "problemRow 1 None []"]
  by (simp add: exampleServices_def userOf_def problemRow_def userHasPrivilege_def)

text \<open>
  C6. MANAGE_PUBLICNESS is granted exactly to a present actor who is a system admin or
  holds the global manage-problem privilege: an anonymous actor is denied, and the
  decision does not read the problem at all, so ownership never suffices.
\<close>

theorem C6_manage_publicness:
  "userHasPermission sv user problem MANAGE_PUBLICNESS =
     (\<exists>u. user = Some u \<and> (isAdmin u \<or> userHasPrivilege sv u MANAGE_PROBLEM))"
  by (cases user) auto

text \<open>
  The owner may modify the problem, yet not manage its publicness; an admin and a holder
  of the privilege may.
\<close>

theorem C6_manage_publicness_witness:
  "\<not> userHasPermission exampleServices None (problemRow 1 None []) MANAGE_PUBLICNESS \<and>
   \<not> userHasPermission exampleServices (Some (userOf 1 False)) (problemRow 1 None [])
       MANAGE_PUBLICNESS \<and>
   userHasPermission exampleServices (Some (userOf 1 False)) (problemRow 1 None []) MODIFY \<and>
   userHasPermission exampleServices (Some (userOf 2 True)) (problemRow 1 None [])
       MANAGE_PUBLICNESS \<and>
   userHasPermission exampleServices (Some (userOf 4 False)) (problemRow 1 None [])
       MANAGE_PUBLICNESS"
  using
    C6_manage_publicness [of exampleServices None "problemRow 1 None []"]
    C6_manage_publicness [of exampleServices "Some (userOf 1 False)" "problemRow 1 None []"]
    C6_manage_publicness [of exampleServices "Some (userOf 2 True)" "problemRow 1 None []"]
    C6_manage_publicness [of exampleServices "Some (userOf 4 False)" "problemRow 1 None []"]
  by (simp add: exampleServices_def userOf_def problemRow_def userHasPrivilege_def)

section \<open>Statements, transactions and loops\<close>

lemma execute_cases:
  "execute fails m s w =
     (if fails s then (Inl StorageFailure, w\<lparr>issued := issued w @ [(m, s)]\<rparr>)
      else if violatesConstraint s (view m w)
      then (Inl DuplicateEntry, w\<lparr>issued := issued w @ [(m, s)]\<rparr>)
      else (Inr (), case m of
              TransactionalEntityManager \<Rightarrow>
                w\<lparr>issued := issued w @ [(m, s)], pending := pending w @ [s]\<rparr>
            | ConnectionManager \<Rightarrow>
                w\<lparr>issued := issued w @ [(m, s)], committed := applyStatement s (committed w)\<rparr>))"
  by (simp add: execute_def Let_def split: EntityManager.split)

lemma issued_execute: "issued (snd (execute fails m s w)) = issued w @ [(m, s)]"
  by (simp add: execute_def Let_def split: EntityManager.split)

lemma execute_Inr_iff:
  "(fst (execute fails m s w) = Inr ()) = (\<not> fails s \<and> \<not> violatesConstraint s (view m w))"
  by (simp add: execute_def Let_def split: EntityManager.split)

lemma view_execute:
  "execute fails m s w = (Inr u, w1) \<Longrightarrow> view m w1 = applyStatement s (view m w)"
  by (cases m) (auto simp: execute_def Let_def split: if_splits)

section \<open>Replacing the tags of a problem\<close>

text \<open>
  C9. \<^verbatim>\<open>setProblemTags\<close> sends the deletion of all rows (problemId, *) first, and then,
  unless the deletion failed or the tag list is empty, one insert statement with exactly
  one row per given tag; for an empty list nothing is sent after the deletion. It
  succeeds unless the store fails one of the statements, and then the table holds the
  rows of the other problems followed by one row per tag.
\<close>

theorem C9_setProblemTags:
  assumes "setProblemTags fails problem tags m w = (r, w1)"
  shows "issued w1 =
           issued w @ (m, DeleteProblemTagMaps (problem_id problem)) #
             (if fails (DeleteProblemTagMaps (problem_id problem)) \<or> tags = [] then []
              else [(m, InsertProblemTagMaps (map (\<lambda>t. (problem_id problem, tag_id t)) tags))]) \<and>
         (r = Inr () \<longleftrightarrow>
            \<not> fails (DeleteProblemTagMaps (problem_id problem)) \<and>
            (tags = [] \<or>
             \<not> fails (InsertProblemTagMaps (map (\<lambda>t. (problem_id problem, tag_id t)) tags)))) \<and>
         (r = Inr () \<longrightarrow>
            problemTagMaps (view m w1) =
              filter (\<lambda>row. fst row \<noteq> problem_id problem) (problemTagMaps (view m w)) @
              map (\<lambda>t. (problem_id problem, tag_id t)) tags)"
  using assms
  by (cases m)
     (auto simp: setProblemTags_def andThen_def execute_cases split: if_splits)

text \<open>Replacing the tags of problem 1 by none, and by the tags 3 and 4.\<close>

theorem C9_setProblemTags_witness:
  "issued (snd (setProblemTags noFailure (problemRow 1 None []) [] TransactionalEntityManager
       (idle (emptyDatabase\<lparr>problemTagMaps := [(1, 5), (2, 5)]\<rparr>)))) =
     [(TransactionalEntityManager, DeleteProblemTagMaps 1)] \<and>
   problemTagMaps (view TransactionalEntityManager
     (snd (setProblemTags noFailure (problemRow 1 None []) [] TransactionalEntityManager
       (idle (emptyDatabase\<lparr>problemTagMaps := [(1, 5), (2, 5)]\<rparr>))))) = [(2, 5)] \<and>
   problemTagMaps (view TransactionalEntityManager
     (snd (setProblemTags noFailure (problemRow 1 None []) [tagRow 3, tagRow 4]
       TransactionalEntityManager
       (idle (emptyDatabase\<lparr>problemTagMaps := [(1, 5), (2, 5)]\<rparr>))))) =
     [(2, 5), (1, 3), (1, 4)]"
  using
    C9_setProblemTags [of noFailure "problemRow 1 None []" "[]" TransactionalEntityManager
      "idle (emptyDatabase\<lparr>problemTagMaps := [(1, 5), (2, 5)]\<rparr>)",
      OF surjective_pairing]
    C9_setProblemTags [of noFailure "problemRow 1 None []" "[tagRow 3, tagRow 4]"
      TransactionalEntityManager
      "idle (emptyDatabase\<lparr>problemTagMaps := [(1, 5), (2, 5)]\<rparr>)",
      OF surjective_pairing]
  by (simp add: noFailure_def problemRow_def tagRow_def idle_def emptyDatabase_def)

section \<open>Lookups by id\<close>

lemma fromEntries_keyed:
  "distinct (map key rows) \<Longrightarrow>
   foldl (\<lambda>m e. m(fst e \<mapsto> snd e)) m0 (map (\<lambda>r. (key r, r)) rows) i =
     (case find (\<lambda>r. key r = i) rows of None \<Rightarrow> m0 i | Some r \<Rightarrow> Some r)"
proof (induction rows arbitrary: m0)
  case Nil
  then show ?case by simp
next
  case (Cons r rows)
  show ?case
  proof (cases "key r = i")
    case True
    from Cons.prems have "key r \<notin> key ` set rows" by simp
    with True have "find (\<lambda>r. key r = i) rows = None"
      unfolding find_None_iff by blast
    with True Cons show ?thesis by simp
  next
    case False
    with Cons show ?thesis by simp
  qed
qed

lemma find_filter_key:
  "find (\<lambda>r. key r = i) (filter (\<lambda>r. key r \<in> S) rows) =
     (if i \<in> S then find (\<lambda>r. key r = i) rows else None)"
  by (induction rows) auto

lemma set_uniqueIds_of: "set (uniqueIds_of xs) = set xs"
  by (simp add: uniqueIds_of_def)

lemma lookup_by_ids:
  assumes "distinct (map key rows)"
  shows "map (fromEntries (map (\<lambda>r. (key r, r)) (findByIds key rows (uniqueIds_of ids)))) ids =
         map (\<lambda>i. find (\<lambda>r. key r = i) rows) ids"
proof -
  let ?found = "findByIds key rows (uniqueIds_of ids)"
  have d: "distinct (map key ?found)"
    using assms by (simp add: findByIds_def distinct_map_filter)
  have "fromEntries (map (\<lambda>r. (key r, r)) ?found) i = find (\<lambda>r. key r = i) rows"
    if "i \<in> set ids" for i
    using that fromEntries_keyed[OF d, of Map.empty i]
    by (simp add: fromEntries_def findByIds_def find_filter_key set_uniqueIds_of
        split: option.split)
  then show ?thesis by simp
qed

text \<open>
  C10. Where the ids of the stored rows are distinct (\<^verbatim>\<open>id\<close> is the primary key),
  \<^verbatim>\<open>findProblemsByExistingIds\<close> and \<^verbatim>\<open>findProblemTagsByExistingIds\<close> return a list as long
  as the input whose i-th element is the row with the i-th id, or \<open>None\<close>
  (\<^verbatim>\<open>undefined\<close>) when no row has that id; so a repeated id yields the same row at each of
  its positions, and the empty input yields the empty list.
\<close>

theorem C10_find_by_existing_ids:
  assumes "distinct (map problem_id (problems (committed w)))"
    and "distinct (map tag_id (problemTagRows (committed w)))"
  shows "findProblemsByExistingIds ids w =
           map (\<lambda>i. find (\<lambda>r. problem_id r = i) (problems (committed w))) ids \<and>
         findProblemTagsByExistingIds ids w =
           map (\<lambda>i. find (\<lambda>r. tag_id r = i) (problemTagRows (committed w))) ids \<and>
         length (findProblemsByExistingIds ids w) = length ids \<and>
         length (findProblemTagsByExistingIds ids w) = length ids"
proof -
  have p: "findProblemsByExistingIds ids w =
           map (\<lambda>i. find (\<lambda>r. problem_id r = i) (problems (committed w))) ids"
    using lookup_by_ids[OF assms(1), of ids]
    by (cases ids) (simp_all add: findProblemsByExistingIds_def Let_def)
  have t: "findProblemTagsByExistingIds ids w =
           map (\<lambda>i. find (\<lambda>r. tag_id r = i) (problemTagRows (committed w))) ids"
    using lookup_by_ids[OF assms(2), of ids]
    by (cases ids) (simp_all add: findProblemTagsByExistingIds_def Let_def)
  show ?thesis using p t by simp
qed

text \<open>Two rows, looked up by an id twice and by an id that no row has.\<close>

theorem C10_find_by_existing_ids_witness:
  "findProblemsByExistingIds [2, 9, 2]
     (idle (emptyDatabase\<lparr>problems := [problemRow 1 None [], problemRow 2 (Some 7) []],
                           problemTagRows := [tagRow 3]\<rparr>)) =
     [Some (problemRow 2 (Some 7) []), None, Some (problemRow 2 (Some 7) [])] \<and>
   findProblemTagsByExistingIds [3, 4]
     (idle (emptyDatabase\<lparr>problems := [problemRow 1 None [], problemRow 2 (Some 7) []],
                           problemTagRows := [tagRow 3]\<rparr>)) =
     [Some (tagRow 3), None]"
  using
    C10_find_by_existing_ids [of
      "idle (emptyDatabase\<lparr>problems := [problemRow 1 None [], problemRow 2 (Some 7) []],
                            problemTagRows := [tagRow 3]\<rparr>)" "[2, 9, 2]"]
    C10_find_by_existing_ids [of
      "idle (emptyDatabase\<lparr>problems := [problemRow 1 None [], problemRow 2 (Some 7) []],
                            problemTagRows := [tagRow 3]\<rparr>)" "[3, 4]"]
  by (simp add: problemRow_def tagRow_def idle_def emptyDatabase_def)

section \<open>Attaching and renaming files\<close>

text \<open>
  C7. When \<^verbatim>\<open>tryReferenceFile\<close> yields nothing for the content hash, \<^verbatim>\<open>addProblemFile\<close>
  returns false and changes nothing that is committed: no row of \<open>problemFiles\<close> is
  created or changed, and no statement is sent to the store at all.
\<close>

theorem C7_addProblemFile_unknown_hash:
  assumes "fst (fileService_tryReferenceFile fails h TransactionalEntityManager
                  (beginTransaction w)) = Inr None"
  shows "fst (addProblemFile fails problem h type filename w) = Inr False \<and>
         committed (snd (addProblemFile fails problem h type filename w)) = committed w \<and>
         problemFiles (committed (snd (addProblemFile fails problem h type filename w))) =
           problemFiles (committed w) \<and>
         issued (snd (addProblemFile fails problem h type filename w)) = issued w"
proof -
  have none: "find (\<lambda>f. sha256 f = h) (files (committed w)) = None"
    using assms
    by (auto simp: fileService_tryReferenceFile_def beginTransaction_def andThen_def
          execute_cases split: option.splits if_splits)
  then have "fileService_tryReferenceFile fails h TransactionalEntityManager (beginTransaction w) =
     (Inr None, beginTransaction w)"
    by (simp add: fileService_tryReferenceFile_def beginTransaction_def)
  then show ?thesis
    by (simp add: addProblemFile_def transaction_def andThen_def finish_def commitTransaction_def
          beginTransaction_def)
qed

text \<open>A store that knows the hash \<open>def\<close> only; a file is attached with the hash \<open>abc\<close>.\<close>

theorem C7_addProblemFile_unknown_hash_witness:
  "fst (addProblemFile noFailure (problemRow 1 None []) ''abc'' ''TestData'' ''1.in''
     (idle (emptyDatabase\<lparr>files := [\<lparr>uuid = ''u1'', sha256 = ''def'', file_size = 3, referenceCount = 1\<rparr>],
                           problemFiles := [(1, ''TestData'', ''1.in'') \<mapsto> ''u1'']\<rparr>))) = Inr False \<and>
   problemFiles (committed (snd (addProblemFile noFailure (problemRow 1 None []) ''abc'' ''TestData'' ''1.in''
     (idle (emptyDatabase\<lparr>files := [\<lparr>uuid = ''u1'', sha256 = ''def'', file_size = 3, referenceCount = 1\<rparr>],
                           problemFiles := [(1, ''TestData'', ''1.in'') \<mapsto> ''u1'']\<rparr>)))))
     (1, ''TestData'', ''1.in'') = Some ''u1''"
  using C7_addProblemFile_unknown_hash [of noFailure "''abc''"
     "idle (emptyDatabase\<lparr>files := [\<lparr>uuid = ''u1'', sha256 = ''def'', file_size = 3, referenceCount = 1\<rparr>],
                           problemFiles := [(1, ''TestData'', ''1.in'') \<mapsto> ''u1'']\<rparr>)"
     "problemRow 1 None []" "''TestData''" "''1.in''"]
  by (simp add: fileService_tryReferenceFile_def beginTransaction_def idle_def emptyDatabase_def)

text \<open>
  Renaming \<open>a.in\<close> to \<open>b.in\<close> while the problem has a file \<open>b.in\<close>: the row exists at
  the old key, and the call does not return true; the store rejects the update, since
  the new key is taken, and the exception leaves \<^verbatim>\<open>renameProblemFile\<close>.
\<close>

theorem C8_renameProblemFile_occupied_counterexample:
  "problemFiles (committed (idle (emptyDatabase\<lparr>problemFiles :=
       [(1, ''TestData'', ''a.in'') \<mapsto> ''u1'', (1, ''TestData'', ''b.in'') \<mapsto> ''u2'']\<rparr>)))
     (1, ''TestData'', ''a.in'') = Some ''u1'' \<and>
   fst (renameProblemFile noFailure (problemRow 1 None []) ''TestData'' ''a.in'' ''b.in''
     (idle (emptyDatabase\<lparr>problemFiles :=
       [(1, ''TestData'', ''a.in'') \<mapsto> ''u1'', (1, ''TestData'', ''b.in'') \<mapsto> ''u2'']\<rparr>)))
     = Inl DuplicateEntry \<and>
   fst (renameProblemFile noFailure (problemRow 1 None []) ''TestData'' ''a.in'' ''b.in''
     (idle (emptyDatabase\<lparr>problemFiles :=
       [(1, ''TestData'', ''a.in'') \<mapsto> ''u1'', (1, ''TestData'', ''b.in'') \<mapsto> ''u2'']\<rparr>)))
     \<noteq> Inr True"
  by (simp add: renameProblemFile_def andThen_def execute_cases noFailure_def problemRow_def
        idle_def emptyDatabase_def)

text \<open>
  C8, amended. \<^verbatim>\<open>renameProblemFile\<close> returns false, and does nothing, when no row exists at
  (problemId, type, filename). When the row exists, the store does not fail, and the new
  key is free or is the old key, it returns true and the only change is that the row is
  found at the new filename with the same \<open>uuid\<close>: every other table, the reference
  counts in \<open>files\<close> among them, is as before. When the new key belongs to another
  row, the update is rejected as a duplicate entry and nothing changes. Whenever the
  call does not return true, nothing committed has changed.
\<close>

theorem C8_renameProblemFile:
  assumes "renameProblemFile fails problem type filename newFilename w = (r, w1)"
  shows "(problemFiles (committed w) (problem_id problem, type, filename) = None \<longrightarrow>
            r = Inr False \<and> w1 = w) \<and>
         (\<forall>u. problemFiles (committed w) (problem_id problem, type, filename) = Some u \<and>
              \<not> fails (UpdateProblemFileFilename (problem_id problem) type filename u newFilename) \<and>
              (newFilename = filename \<or>
               problemFiles (committed w) (problem_id problem, type, newFilename) = None) \<longrightarrow>
            r = Inr True \<and>
            committed w1 = (committed w)\<lparr>problemFiles :=
              ((problemFiles (committed w))((problem_id problem, type, filename) := None))
                ((problem_id problem, type, newFilename) \<mapsto> u)\<rparr> \<and>
            files (committed w1) = files (committed w)) \<and>
         (\<forall>u. problemFiles (committed w) (problem_id problem, type, filename) = Some u \<and>
              \<not> fails (UpdateProblemFileFilename (problem_id problem) type filename u newFilename) \<and>
              newFilename \<noteq> filename \<and>
              problemFiles (committed w) (problem_id problem, type, newFilename) \<noteq> None \<longrightarrow>
            r = Inl DuplicateEntry \<and> committed w1 = committed w) \<and>
         (r \<noteq> Inr True \<longrightarrow> committed w1 = committed w)"
  using assms
  by (auto simp: renameProblemFile_def andThen_def execute_cases
        split: option.splits if_splits)

text \<open>Renaming \<open>a.in\<close> to the free name \<open>c.in\<close>.\<close>

theorem C8_renameProblemFile_witness:
  "fst (renameProblemFile noFailure (problemRow 1 None []) ''TestData'' ''a.in'' ''c.in''
     (idle (emptyDatabase\<lparr>
        problemFiles := [(1, ''TestData'', ''a.in'') \<mapsto> ''u1'', (1, ''TestData'', ''b.in'') \<mapsto> ''u2''],
        files := [\<lparr>uuid = ''u1'', sha256 = ''abc'', file_size = 3, referenceCount = 1\<rparr>]\<rparr>))) = Inr True \<and>
   problemFiles (committed (snd (renameProblemFile noFailure (problemRow 1 None []) ''TestData'' ''a.in'' ''c.in''
     (idle (emptyDatabase\<lparr>
        problemFiles := [(1, ''TestData'', ''a.in'') \<mapsto> ''u1'', (1, ''TestData'', ''b.in'') \<mapsto> ''u2''],
        files := [\<lparr>uuid = ''u1'', sha256 = ''abc'', file_size = 3, referenceCount = 1\<rparr>]\<rparr>)))))
     (1, ''TestData'', ''c.in'') = Some ''u1'' \<and>
   problemFiles (committed (snd (renameProblemFile noFailure (problemRow 1 None []) ''TestData'' ''a.in'' ''c.in''
     (idle (emptyDatabase\<lparr>
        problemFiles := [(1, ''TestData'', ''a.in'') \<mapsto> ''u1'', (1, ''TestData'', ''b.in'') \<mapsto> ''u2''],
        files := [\<lparr>uuid = ''u1'', sha256 = ''abc'', file_size = 3, referenceCount = 1\<rparr>]\<rparr>)))))
     (1, ''TestData'', ''a.in'') = None \<and>
   files (committed (snd (renameProblemFile noFailure (problemRow 1 None []) ''TestData'' ''a.in'' ''c.in''
     (idle (emptyDatabase\<lparr>
        problemFiles := [(1, ''TestData'', ''a.in'') \<mapsto> ''u1'', (1, ''TestData'', ''b.in'') \<mapsto> ''u2''],
        files := [\<lparr>uuid = ''u1'', sha256 = ''abc'', file_size = 3, referenceCount = 1\<rparr>]\<rparr>))))) =
     [\<lparr>uuid = ''u1'', sha256 = ''abc'', file_size = 3, referenceCount = 1\<rparr>]"
  using C8_renameProblemFile [of noFailure "problemRow 1 None []" "''TestData''" "''a.in''" "''c.in''"
     "idle (emptyDatabase\<lparr>
        problemFiles := [(1, ''TestData'', ''a.in'') \<mapsto> ''u1'', (1, ''TestData'', ''b.in'') \<mapsto> ''u2''],
        files := [\<lparr>uuid = ''u1'', sha256 = ''abc'', file_size = 3, referenceCount = 1\<rparr>]\<rparr>)",
     OF surjective_pairing]
  by (simp add: noFailure_def problemRow_def idle_def emptyDatabase_def)

section \<open>Setting the display id\<close>

lemma violates_SaveProblem_count:
  assumes "violatesConstraint (SaveProblem p) (committed w)"
  shows "countByDisplayId (displayId p) w \<noteq> 0"
proof -
  from assms obtain q where "q \<in> set (problems (committed w))" "displayId q = displayId p"
    by (auto simp: list_ex_iff)
  then have "filter (\<lambda>q. displayId q = displayId p) (problems (committed w)) \<noteq> []"
    by (auto simp: filter_empty_conv)
  then show ?thesis by (simp add: countByDisplayId_def)
qed

text \<open>
  C4, amended. When persisting the new display id fails with the exception \<open>e\<close>,
  \<^verbatim>\<open>setProblemDisplayId\<close> returns false if some stored problem holds the target display id
  when the \<^verbatim>\<open>catch\<close> counts, and rethrows \<open>e\<close> unchanged otherwise. A uniqueness violation
  therefore always yields false. Nothing committed changes.
\<close>

theorem C4_setProblemDisplayId_failure:
  assumes "displayId problem \<noteq> (if d = None \<or> d = Some 0 then None else d)"
    and "execute fails ConnectionManager
           (SaveProblem (problem\<lparr>displayId := (if d = None \<or> d = Some 0 then None else d)\<rparr>)) w =
         (Inl e, w1)"
  shows "fst (setProblemDisplayId fails problem d w) =
           (if countByDisplayId (if d = None \<or> d = Some 0 then None else d) w \<noteq> 0
            then Inr False else Inl e) \<and>
         (e = DuplicateEntry \<longrightarrow> fst (setProblemDisplayId fails problem d w) = Inr False) \<and>
         committed (snd (snd (setProblemDisplayId fails problem d w))) = committed w"
proof -
  let ?d = "if d = None \<or> d = Some 0 then None else d"
  let ?p = "problem\<lparr>displayId := ?d\<rparr>"
  have w1: "committed w1 = committed w"
    using assms(2) by (auto simp: execute_cases split: if_splits)
  then have cnt: "countByDisplayId ?d w1 = countByDisplayId ?d w"
    by (simp add: countByDisplayId_def)
  have res: "setProblemDisplayId fails problem d w =
     (if countByDisplayId ?d w \<noteq> 0 then (Inr False, ?p, w1) else (Inl e, ?p, w1))"
    using assms cnt by (simp add: setProblemDisplayId_def Let_def)
  have dup: "countByDisplayId ?d w \<noteq> 0" if "e = DuplicateEntry"
  proof -
    from that assms(2) have "violatesConstraint (SaveProblem ?p) (committed w)"
      by (auto simp: execute_cases split: if_splits)
    from violates_SaveProblem_count[OF this] show ?thesis by simp
  qed
  show ?thesis using res w1 dup by auto
qed

text \<open>
  Problem 1 holds display id 5, problem 2 is given 5, and the store fails the
  \<^verbatim>\<open>save\<close> for a reason of its own: the exception is not a uniqueness violation, and it is
  not propagated; the call returns false.
\<close>

theorem C4_setProblemDisplayId_swallows_counterexample:
  "fst (execute (\<lambda>s. True) ConnectionManager
          (SaveProblem ((problemRow 2 None [])\<lparr>displayId := Some 5\<rparr>))
          (idle (emptyDatabase\<lparr>problems := [problemRow 1 (Some 5) [], problemRow 2 None []]\<rparr>))) =
     Inl StorageFailure \<and>
   StorageFailure \<noteq> DuplicateEntry \<and>
   fst (setProblemDisplayId (\<lambda>s. True) (problemRow 2 None []) (Some 5)
          (idle (emptyDatabase\<lparr>problems := [problemRow 1 (Some 5) [], problemRow 2 None []]\<rparr>))) =
     Inr False"
  by (simp add: setProblemDisplayId_def Let_def execute_cases countByDisplayId_def
        problemRow_def idle_def emptyDatabase_def)

text \<open>
  A uniqueness violation yields false; a failure of the store while nobody holds the
  display id is rethrown.
\<close>

theorem C4_setProblemDisplayId_failure_witness:
  "fst (setProblemDisplayId noFailure (problemRow 2 None []) (Some 5)
          (idle (emptyDatabase\<lparr>problems := [problemRow 1 (Some 5) [], problemRow 2 None []]\<rparr>))) =
     Inr False \<and>
   fst (setProblemDisplayId (\<lambda>s. True) (problemRow 2 None []) (Some 6)
          (idle (emptyDatabase\<lparr>problems := [problemRow 1 (Some 5) [], problemRow 2 None []]\<rparr>))) =
     Inl StorageFailure"
  using
    C4_setProblemDisplayId_failure [of "problemRow 2 None []" "Some 5" noFailure
      "idle (emptyDatabase\<lparr>problems := [problemRow 1 (Some 5) [], problemRow 2 None []]\<rparr>)"
      DuplicateEntry
      "(idle (emptyDatabase\<lparr>problems := [problemRow 1 (Some 5) [], problemRow 2 None []]\<rparr>))
         \<lparr>issued := [(ConnectionManager,
              SaveProblem ((problemRow 2 None [])\<lparr>displayId := Some 5\<rparr>))]\<rparr>"]
    C4_setProblemDisplayId_failure [of "problemRow 2 None []" "Some 6" "\<lambda>s. True"
      "idle (emptyDatabase\<lparr>problems := [problemRow 1 (Some 5) [], problemRow 2 None []]\<rparr>)"
      StorageFailure
      "(idle (emptyDatabase\<lparr>problems := [problemRow 1 (Some 5) [], problemRow 2 None []]\<rparr>))
         \<lparr>issued := [(ConnectionManager,
              SaveProblem ((problemRow 2 None [])\<lparr>displayId := Some 6\<rparr>))]\<rparr>"]
  by (simp add: execute_cases countByDisplayId_def noFailure_def problemRow_def
        idle_def emptyDatabase_def)

section \<open>Loops as lists of statements\<close>

lemma forEach_append:
  "forEach step (xs @ ys) w =
     (case forEach step xs w of (Inl e, w1) \<Rightarrow> (Inl e, w1) | (Inr u, w1) \<Rightarrow> forEach step ys w1)"
  by (induction xs arbitrary: w) (auto split: prod.splits sum.splits)

lemma forEach_concat:
  assumes "\<And>x w. step x w = forEach f (g x) w"
  shows "forEach step xs w = forEach f (concat (map g xs)) w"
  by (induction xs arbitrary: w) (auto simp: assms forEach_append split: prod.splits sum.splits)

lemma execute_transactional_Inr:
  assumes "execute fails TransactionalEntityManager s w = (Inr u, w1)"
  shows "w1 = w\<lparr>issued := issued w @ [(TransactionalEntityManager, s)],
                 pending := pending w @ [s]\<rparr>"
    and "\<not> fails s"
    and "\<not> violatesConstraint s (view TransactionalEntityManager w)"
  using assms by (auto simp: execute_def Let_def split: if_splits)

lemma execute_connection_Inr:
  assumes "execute fails ConnectionManager s w = (Inr u, w1)"
  shows "w1 = w\<lparr>issued := issued w @ [(ConnectionManager, s)],
                 committed := applyStatement s (committed w)\<rparr>"
    and "\<not> fails s"
    and "\<not> violatesConstraint s (committed w)"
  using assms by (auto simp: execute_def Let_def split: if_splits)

lemma forEach_Cons_Inr:
  assumes "forEach step (x # xs) w = (Inr u, w2)"
  obtains w1 where "step x w = (Inr (), w1)" and "forEach step xs w1 = (Inr u, w2)"
  using assms by (auto split: prod.splits sum.splits)

lemma forEach_transactional:
  assumes "forEach (execute fails TransactionalEntityManager) stmts w = (Inr u, w1)"
  shows "w1 = w\<lparr>issued := issued w @ map (Pair TransactionalEntityManager) stmts,
                 pending := pending w @ stmts\<rparr>"
  using assms
proof (induction stmts arbitrary: w)
  case Nil
  then show ?case by simp
next
  case (Cons s stmts)
  from Cons.prems obtain w0
    where s: "execute fails TransactionalEntityManager s w = (Inr (), w0)"
      and r: "forEach (execute fails TransactionalEntityManager) stmts w0 = (Inr u, w1)"
    by (rule forEach_Cons_Inr)
  from Cons.IH[OF r] execute_transactional_Inr(1)[OF s] show ?case by simp
qed

lemma forEach_connection:
  assumes "forEach (execute fails ConnectionManager) stmts w = (Inr u, w1)"
  shows "w1 = w\<lparr>issued := issued w @ map (Pair ConnectionManager) stmts,
                 committed := foldl (\<lambda>db s. applyStatement s db) (committed w) stmts\<rparr>"
  using assms
proof (induction stmts arbitrary: w)
  case Nil
  then show ?case by simp
next
  case (Cons s stmts)
  from Cons.prems obtain w0
    where s: "execute fails ConnectionManager s w = (Inr (), w0)"
      and r: "forEach (execute fails ConnectionManager) stmts w0 = (Inr u, w1)"
    by (rule forEach_Cons_Inr)
  from Cons.IH[OF r] execute_connection_Inr(1)[OF s] show ?case by simp
qed

lemma deleteLocale_forEach:
  "deleteLocale fails problem l w =
     forEach (execute fails TransactionalEntityManager) (deletionsOf (problem_id problem) l) w"
  by (auto simp: deleteLocale_def deletionsOf_def localizedContentService_delete_def andThen_def
        split: prod.splits sum.splits)

lemma updateLocalizedContent_forEach:
  "updateLocalizedContent fails stringify problem e w =
     forEach (execute fails ConnectionManager) (upsertsOf stringify (problem_id problem) e) w"
  by (auto simp: updateLocalizedContent_def upsertsOf_def
        localizedContentService_createOrUpdate_def andThen_def
        split: prod.splits sum.splits option.splits)

lemma createLocalizedContent_forEach:
  "createLocalizedContent fails stringify pid e w =
     forEach (execute fails TransactionalEntityManager) (creationsOf stringify pid e) w"
  by (auto simp: createLocalizedContent_def creationsOf_def
        localizedContentService_createOrUpdate_def andThen_def
        split: prod.splits sum.splits)

lemma setProblemTags_forEach:
  "setProblemTags fails problem tags m w =
     forEach (execute fails m) (tagStatements (problem_id problem) tags) w"
  by (auto simp: setProblemTags_def tagStatements_def andThen_def
        split: prod.splits sum.splits)

lemma updateSample_forEach:
  "updateSample fails problem samples w = (Inr u, w1) \<Longrightarrow>
   forEach (execute fails TransactionalEntityManager)
     (sampleStatements (problem_id problem) samples) w = (Inr (), w1)"
  by (auto simp: updateSample_def sampleStatements_def split: option.splits prod.splits sum.splits)

section \<open>A statement update that succeeds\<close>

lemma andThen_Inr:
  assumes "andThen r f = (Inr b, w2)"
  obtains a w1 where "r = (Inr a, w1)" and "f a w1 = (Inr b, w2)"
  using assms by (auto simp: andThen_def split: prod.splits sum.splits)

lemma updateProblemStatement_success:
  assumes ok: "updateProblemStatement fails stringify problem request tags w = (Inr True, p1, w1)"
  shows "p1 = problem\<lparr>locales := map requestLocale (requestLocalizedContents request)\<rparr> \<and>
    pending w1 = [] \<and>
    committed w1 =
      foldl (\<lambda>db s. applyStatement s db)
        (foldl (\<lambda>db s. applyStatement s db) (committed w)
           (concat (map (upsertsOf stringify (problem_id problem))
              (requestLocalizedContents request))))
        (sampleStatements (problem_id problem) (requestSamples request) @
         concat (map (deletionsOf (problem_id problem))
           (filter (\<lambda>l. l \<notin> set (map requestLocale (requestLocalizedContents request)))
              (locales problem))) @
         tagStatements (problem_id problem) tags @ [SaveProblem p1]) \<and>
    issued w1 =
      issued w @
      map (Pair TransactionalEntityManager)
        (sampleStatements (problem_id problem) (requestSamples request) @
         concat (map (deletionsOf (problem_id problem))
           (filter (\<lambda>l. l \<notin> set (map requestLocale (requestLocalizedContents request)))
              (locales problem)))) @
      map (Pair ConnectionManager)
        (concat (map (upsertsOf stringify (problem_id problem))
           (requestLocalizedContents request))) @
      map (Pair TransactionalEntityManager)
        (tagStatements (problem_id problem) tags @ [SaveProblem p1])"
proof -
  let ?T = TransactionalEntityManager
  let ?req = "requestLocalizedContents request"
  let ?new = "map requestLocale ?req"
  let ?del = "filter (\<lambda>l. l \<notin> set ?new) (locales problem)"
  let ?p1 = "problem\<lparr>locales := ?new\<rparr>"
  obtain r pa wz where cb:
    "updateProblemStatement_callback fails stringify problem request tags (beginTransaction w) =
       (r, pa, wz)"
    by (metis prod_cases3)
  from ok cb have r: "r = Inr ()" and pa: "pa = p1" and w1: "w1 = commitTransaction wz"
    by (auto simp: updateProblemStatement_def finish_def split: sum.splits)
  from cb r obtain wa where
    sa: "updateSample fails problem (requestSamples request) (beginTransaction w) = (Inr (), wa)"
    by (auto simp: updateProblemStatement_callback_def Let_def split: prod.splits sum.splits)
  from cb r sa obtain wb where
    sb: "forEach (deleteLocale fails problem) ?del wa = (Inr (), wb)"
    by (auto simp: updateProblemStatement_callback_def Let_def split: prod.splits sum.splits)
  from cb r sa sb have p1: "p1 = ?p1" and
    rest: "andThen (forEach (updateLocalizedContent fails stringify ?p1) ?req wb) (\<lambda>_ w3.
           andThen (setProblemTags fails ?p1 tags ?T w3) (\<lambda>_ w4.
           execute fails ?T (SaveProblem ?p1) w4)) = (Inr (), wz)"
    unfolding pa[symmetric]
    by (auto simp: updateProblemStatement_callback_def Let_def split: prod.splits sum.splits)
  from rest obtain uc wc where
    sc: "forEach (updateLocalizedContent fails stringify ?p1) ?req wb = (Inr uc, wc)" and
    rest2: "andThen (setProblemTags fails ?p1 tags ?T wc) (\<lambda>_ w4.
              execute fails ?T (SaveProblem ?p1) w4) = (Inr (), wz)"
    by (rule andThen_Inr)
  from rest2 obtain ud wd where
    sd: "setProblemTags fails ?p1 tags ?T wc = (Inr ud, wd)" and
    se: "execute fails ?T (SaveProblem ?p1) wd = (Inr (), wz)"
    by (rule andThen_Inr)
  note fa = forEach_transactional[OF updateSample_forEach[OF sa]]
  have "forEach (execute fails ?T) (concat (map (deletionsOf (problem_id problem)) ?del)) wa =
          (Inr (), wb)"
    using sb forEach_concat[of "deleteLocale fails problem" "execute fails ?T"
        "deletionsOf (problem_id problem)" ?del wa]
    by (simp add: deleteLocale_forEach)
  note fb = forEach_transactional[OF this]
  have "forEach (execute fails ConnectionManager)
          (concat (map (upsertsOf stringify (problem_id problem)) ?req)) wb = (Inr uc, wc)"
    using sc forEach_concat[of "updateLocalizedContent fails stringify ?p1"
        "execute fails ConnectionManager" "upsertsOf stringify (problem_id problem)" ?req wb]
    by (simp add: updateLocalizedContent_forEach)
  note fc = forEach_connection[OF this]
  have "forEach (execute fails ?T) (tagStatements (problem_id problem) tags) wc = (Inr ud, wd)"
    using sd by (simp add: setProblemTags_forEach)
  note fd = forEach_transactional[OF this]
  note fe = execute_transactional_Inr(1)[OF se]
  show ?thesis
    unfolding w1 p1 fe fd fc fb fa
    by (simp add: commitTransaction_def beginTransaction_def)
qed

section \<open>The tables after a list of statements\<close>

lemma foldl_sampleStatements [simp]:
  "localizedContents (foldl (\<lambda>db s. applyStatement s db) db (sampleStatements pid d)) =
     localizedContents db"
  "problems (foldl (\<lambda>db s. applyStatement s db) db (sampleStatements pid d)) = problems db"
  "nextProblemId (foldl (\<lambda>db s. applyStatement s db) db (sampleStatements pid d)) =
     nextProblemId db"
  by (simp_all add: sampleStatements_def split: option.split)

lemma foldl_tagStatements [simp]:
  "localizedContents (foldl (\<lambda>db s. applyStatement s db) db (tagStatements pid tags)) =
     localizedContents db"
  "problems (foldl (\<lambda>db s. applyStatement s db) db (tagStatements pid tags)) = problems db"
  "nextProblemId (foldl (\<lambda>db s. applyStatement s db) db (tagStatements pid tags)) =
     nextProblemId db"
  by (simp_all add: tagStatements_def)

lemma foldl_deletions_frame [simp]:
  "problems (foldl (\<lambda>db s. applyStatement s db) db (concat (map (deletionsOf pid) ls))) =
     problems db"
  "nextProblemId (foldl (\<lambda>db s. applyStatement s db) db (concat (map (deletionsOf pid) ls))) =
     nextProblemId db"
  by (induction ls arbitrary: db) (simp_all add: deletionsOf_def)

lemma foldl_upserts_frame [simp]:
  "problems (foldl (\<lambda>db s. applyStatement s db) db (concat (map (upsertsOf sf pid) req))) =
     problems db"
  "nextProblemId (foldl (\<lambda>db s. applyStatement s db) db (concat (map (upsertsOf sf pid) req))) =
     nextProblemId db"
  by (induction req arbitrary: db) (simp_all add: upsertsOf_def split: option.split)

lemma foldl_deletions:
  "localizedContents
     (foldl (\<lambda>db s. applyStatement s db) db (concat (map (deletionsOf pid) ls))) k =
   (if fst k = pid \<and> fst (snd k) \<noteq> PROBLEM_TAG_NAME \<and> snd (snd k) \<in> set ls then None
    else localizedContents db k)"
proof (induction ls arbitrary: db)
  case Nil
  then show ?case by simp
next
  case (Cons l ls)
  have kinds: "fst (snd k) = PROBLEM_TITLE \<or> fst (snd k) = PROBLEM_CONTENT \<or>
        fst (snd k) = PROBLEM_TAG_NAME"
    by (cases "fst (snd k)") simp_all
  have step: "foldl (\<lambda>db s. applyStatement s db) db (concat (map (deletionsOf pid) (l # ls))) =
      foldl (\<lambda>db s. applyStatement s db)
        (foldl (\<lambda>db s. applyStatement s db) db (deletionsOf pid l))
        (concat (map (deletionsOf pid) ls))"
    by simp
  have "localizedContents
          (foldl (\<lambda>db s. applyStatement s db) db (concat (map (deletionsOf pid) (l # ls)))) k =
        (if fst k = pid \<and> fst (snd k) \<noteq> PROBLEM_TAG_NAME \<and> snd (snd k) \<in> set ls then None
         else localizedContents (foldl (\<lambda>db s. applyStatement s db) db (deletionsOf pid l)) k)"
    unfolding step by (rule Cons.IH)
  also have "\<dots> =
        (if fst k = pid \<and> fst (snd k) \<noteq> PROBLEM_TAG_NAME \<and> snd (snd k) \<in> set (l # ls) then None
         else localizedContents db k)"
    using kinds by (auto simp: deletionsOf_def)
  finally show ?case .
qed

lemma requestedTitles_snoc:
  "requestedTitles (req @ [e]) l =
     requestedTitles req l @
     (if requestLocale e = l then (case requestTitle e of None \<Rightarrow> [] | Some t \<Rightarrow> [t]) else [])"
  by (auto simp: requestedTitles_def List.map_filter_def split: option.splits)

lemma requestedContents_snoc:
  "requestedContents sf (req @ [e]) l =
     requestedContents sf req l @
     (if requestLocale e = l
      then (case requestContentSections e of None \<Rightarrow> [] | Some c \<Rightarrow> [sf c]) else [])"
  by (auto simp: requestedContents_def List.map_filter_def split: option.splits)

lemma foldl_upserts_title:
  "localizedContents
     (foldl (\<lambda>db s. applyStatement s db) db (concat (map (upsertsOf sf pid) req)))
     (pid, PROBLEM_TITLE, l) =
   (if requestedTitles req l = [] then localizedContents db (pid, PROBLEM_TITLE, l)
    else Some (last (requestedTitles req l)))"
proof (induction req rule: rev_induct)
  case Nil
  then show ?case by (simp add: requestedTitles_def List.map_filter_def)
next
  case (snoc e req)
  then show ?case
    by (auto simp: requestedTitles_snoc upsertsOf_def split: option.splits)
qed

lemma foldl_upserts_content:
  "localizedContents
     (foldl (\<lambda>db s. applyStatement s db) db (concat (map (upsertsOf sf pid) req)))
     (pid, PROBLEM_CONTENT, l) =
   (if requestedContents sf req l = [] then localizedContents db (pid, PROBLEM_CONTENT, l)
    else Some (last (requestedContents sf req l)))"
proof (induction req rule: rev_induct)
  case Nil
  then show ?case by (simp add: requestedContents_def List.map_filter_def)
next
  case (snoc e req)
  then show ?case
    by (auto simp: requestedContents_snoc upsertsOf_def split: option.splits)
qed

lemma foldl_upserts_other:
  assumes "fst k \<noteq> pid \<or> fst (snd k) = PROBLEM_TAG_NAME \<or> snd (snd k) \<notin> requestLocale ` set req"
  shows "localizedContents
     (foldl (\<lambda>db s. applyStatement s db) db (concat (map (upsertsOf sf pid) req))) k =
     localizedContents db k"
  using assms
proof (induction req rule: rev_induct)
  case Nil
  then show ?case by simp
next
  case (snoc e req)
  then show ?case
    by (cases k) (auto simp: upsertsOf_def split: option.splits)
qed

lemma find_append_None:
  "find P xs = None \<Longrightarrow> find P (xs @ ys) = find P ys"
  by (induction xs) (auto split: if_splits)

lemma find_saveProblemRow:
  "find (\<lambda>q. problem_id q = problem_id p) (saveProblemRow p rows) = Some p"
proof (cases "list_ex (\<lambda>q. problem_id q = problem_id p) rows")
  case True
  then have "find (\<lambda>q. problem_id q = problem_id p)
               (map (\<lambda>q. if problem_id q = problem_id p then p else q) rows) = Some p"
    by (induction rows) auto
  with True show ?thesis by (simp add: saveProblemRow_def)
next
  case False
  then have "find (\<lambda>q. problem_id q = problem_id p) rows = None"
    by (auto simp: find_None_iff list_ex_iff)
  with False show ?thesis by (simp add: saveProblemRow_def find_append_None)
qed

lemma requestedTitles_distinct:
  assumes "distinct (map requestLocale req)" and "e \<in> set req"
  shows "requestedTitles req (requestLocale e) =
           (case requestTitle e of None \<Rightarrow> [] | Some t \<Rightarrow> [t])"
  using assms
proof (induction req)
  case Nil
  then show ?case by simp
next
  case (Cons a req)
  have tl: "requestedTitles (a # req) l =
      (if requestLocale a = l then (case requestTitle a of None \<Rightarrow> [] | Some t \<Rightarrow> [t]) else []) @
      requestedTitles req l" for l
    by (auto simp: requestedTitles_def List.map_filter_def split: option.splits)
  show ?case
  proof (cases "e = a")
    case True
    from Cons.prems(1) have "requestLocale a \<notin> requestLocale ` set req" by simp
    then have "\<forall>x \<in> set req. requestLocale x \<noteq> requestLocale a" by (metis imageI)
    then have "requestedTitles req (requestLocale a) = []"
      by (auto simp: requestedTitles_def List.map_filter_def filter_empty_conv)
    with True show ?thesis by (simp add: tl)
  next
    case False
    with Cons.prems have e: "e \<in> set req" and ne: "requestLocale a \<noteq> requestLocale e" by auto
    from Cons.IH[OF _ e] Cons.prems(1) ne show ?thesis by (simp add: tl)
  qed
qed

lemma requestedContents_distinct:
  assumes "distinct (map requestLocale req)" and "e \<in> set req"
  shows "requestedContents sf req (requestLocale e) =
           (case requestContentSections e of None \<Rightarrow> [] | Some c \<Rightarrow> [sf c])"
  using assms
proof (induction req)
  case Nil
  then show ?case by simp
next
  case (Cons a req)
  have tl: "requestedContents sf (a # req) l =
      (if requestLocale a = l
       then (case requestContentSections a of None \<Rightarrow> [] | Some c \<Rightarrow> [sf c]) else []) @
      requestedContents sf req l" for l
    by (auto simp: requestedContents_def List.map_filter_def split: option.splits)
  show ?case
  proof (cases "e = a")
    case True
    from Cons.prems(1) have "requestLocale a \<notin> requestLocale ` set req" by simp
    then have "\<forall>x \<in> set req. requestLocale x \<noteq> requestLocale a" by (metis imageI)
    then have "requestedContents sf req (requestLocale a) = []"
      by (auto simp: requestedContents_def List.map_filter_def filter_empty_conv)
    with True show ?thesis by (simp add: tl)
  next
    case False
    with Cons.prems have e: "e \<in> set req" and ne: "requestLocale a \<noteq> requestLocale e" by auto
    from Cons.IH[OF _ e] Cons.prems(1) ne show ?thesis by (simp add: tl)
  qed
qed

text \<open>Localized contents after a successful update of the statement.\<close>

lemma localized_after_update:
  assumes "updateProblemStatement fails stringify problem request tags w = (Inr True, p1, w1)"
  shows "localizedContents (committed w1) k =
     (if fst k = problem_id problem \<and> fst (snd k) \<noteq> PROBLEM_TAG_NAME \<and>
         snd (snd k) \<in> set (locales problem) \<and>
         snd (snd k) \<notin> requestLocale ` set (requestLocalizedContents request)
      then None
      else localizedContents
             (foldl (\<lambda>db s. applyStatement s db) (committed w)
                (concat (map (upsertsOf stringify (problem_id problem))
                   (requestLocalizedContents request)))) k)"
  using updateProblemStatement_success[OF assms]
  by (simp add: foldl_deletions)

lemma problems_after_update:
  assumes "updateProblemStatement fails stringify problem request tags w = (Inr True, p1, w1)"
  shows "problems (committed w1) = saveProblemRow p1 (problems (committed w))"
    and "nextProblemId (committed w1) = max (nextProblemId (committed w)) (Suc (problem_id p1))"
  using updateProblemStatement_success[OF assms]
  by simp_all

section \<open>When creating and updating return\<close>

text \<open>
  A call returns when the store fails no statement and, for an update, the sample row
  exists when samples are given and the display id of the problem object is not held by
  another problem. Otherwise an exception leaves the call.
\<close>

lemma forEach_execute_returns:
  assumes "\<forall>s \<in> set stmts. \<not> fails s \<and> (\<forall>db. \<not> violatesConstraint s db)"
  shows "\<exists>w1. forEach (execute fails m) stmts w = (Inr (), w1)"
  using assms
proof (induction stmts arbitrary: w)
  case Nil
  then show ?case by simp
next
  case (Cons s stmts)
  then have "\<exists>w0. execute fails m s w = (Inr (), w0)"
    by (simp add: execute_cases)
  then obtain w0 where s: "execute fails m s w = (Inr (), w0)" ..
  from Cons have "\<exists>w1. forEach (execute fails m) stmts w0 = (Inr (), w1)" by simp
  with s show ?case by simp
qed

lemma harmless_statements:
  "\<forall>s \<in> set (sampleStatements pid d). \<forall>db. \<not> violatesConstraint s db"
  "\<forall>s \<in> set (concat (map (deletionsOf pid) ls)). \<forall>db. \<not> violatesConstraint s db"
  "\<forall>s \<in> set (concat (map (upsertsOf sf pid) req)). \<forall>db. \<not> violatesConstraint s db"
  "\<forall>s \<in> set (concat (map (creationsOf sf pid) lcs)). \<forall>db. \<not> violatesConstraint s db"
  "\<forall>s \<in> set (tagStatements pid tags). \<forall>db. \<not> violatesConstraint s db"
  by (auto simp: sampleStatements_def deletionsOf_def upsertsOf_def creationsOf_def
        tagStatements_def split: option.splits)

lemma updateProblemStatement_returns:
  assumes nofail: "\<And>s. \<not> fails s"
    and sample: "requestSamples request \<noteq> None \<Longrightarrow>
                 problemSamples (committed w) (problem_id problem) \<noteq> None"
    and unique: "\<not> violatesConstraint (SaveProblem problem) (committed w)"
  shows "fst (updateProblemStatement fails sf problem request tags w) = Inr True"
proof -
  let ?T = TransactionalEntityManager
  let ?pid = "problem_id problem"
  let ?req = "requestLocalizedContents request"
  let ?new = "map requestLocale ?req"
  let ?del = "filter (\<lambda>l. l \<notin> set ?new) (locales problem)"
  let ?p1 = "problem\<lparr>locales := ?new\<rparr>"
  let ?w0 = "beginTransaction w"
  have v0: "view ?T ?w0 = committed w" by (simp add: beginTransaction_def)
  have "\<exists>wa. updateSample fails problem (requestSamples request) ?w0 = (Inr (), wa)"
  proof (cases "requestSamples request")
    case None
    then show ?thesis by (simp add: updateSample_def)
  next
    case (Some d)
    with sample obtain old where "problemSamples (view ?T ?w0) ?pid = Some old"
      unfolding v0 by auto
    with Some nofail show ?thesis
      by (simp add: updateSample_def execute_cases del: view.simps)
  qed
  then obtain wa where sa: "updateSample fails problem (requestSamples request) ?w0 = (Inr (), wa)" ..
  note fa = forEach_transactional[OF updateSample_forEach[OF sa]]
  obtain wb where sb0: "forEach (execute fails ?T) (concat (map (deletionsOf ?pid) ?del)) wa = (Inr (), wb)"
    using forEach_execute_returns[of "concat (map (deletionsOf ?pid) ?del)" fails ?T wa]
      harmless_statements(2)[of ?pid ?del] nofail by auto
  then have sb: "forEach (deleteLocale fails problem) ?del wa = (Inr (), wb)"
    using forEach_concat[of "deleteLocale fails problem" "execute fails ?T"
        "deletionsOf ?pid" ?del wa]
    by (simp add: deleteLocale_forEach)
  note fb = forEach_transactional[OF sb0]
  obtain wc where sc0: "forEach (execute fails ConnectionManager)
      (concat (map (upsertsOf sf ?pid) ?req)) wb = (Inr (), wc)"
    using forEach_execute_returns[of "concat (map (upsertsOf sf ?pid) ?req)" fails ConnectionManager wb]
      harmless_statements(3)[of sf ?pid ?req] nofail by auto
  then have sc: "forEach (updateLocalizedContent fails sf ?p1) ?req wb = (Inr (), wc)"
    using forEach_concat[of "updateLocalizedContent fails sf ?p1"
        "execute fails ConnectionManager" "upsertsOf sf ?pid" ?req wb]
    by (simp add: updateLocalizedContent_forEach)
  note fc = forEach_connection[OF sc0]
  obtain wd where sd0: "forEach (execute fails ?T) (tagStatements ?pid tags) wc = (Inr (), wd)"
    using forEach_execute_returns[of "tagStatements ?pid tags" fails ?T wc]
      harmless_statements(5)[of ?pid tags] nofail by auto
  then have sd: "setProblemTags fails ?p1 tags ?T wc = (Inr (), wd)"
    by (simp add: setProblemTags_forEach)
  note fd = forEach_transactional[OF sd0]
  have "problems (view ?T wd) = problems (committed w)"
    unfolding fd fc fb fa by (simp add: beginTransaction_def)
  with unique have "\<not> violatesConstraint (SaveProblem ?p1) (view ?T wd)"
    by simp
  then have "\<exists>we. execute fails ?T (SaveProblem ?p1) wd = (Inr (), we)"
    using nofail by (simp add: execute_cases)
  then obtain we where se: "execute fails ?T (SaveProblem ?p1) wd = (Inr (), we)" ..
  have "updateProblemStatement_callback fails sf problem request tags ?w0 = (Inr (), ?p1, we)"
    using sa sb sc sd se
    by (simp add: updateProblemStatement_callback_def Let_def andThen_def)
  then show ?thesis
    by (simp add: updateProblemStatement_def)
qed

lemma createProblem_returns:
  assumes nofail: "\<And>s. \<not> fails s"
  shows "\<exists>p. fst (createProblem fails sf gdj owner type statement tags w) = Inr p"
proof -
  let ?T = TransactionalEntityManager
  let ?w0 = "beginTransaction w"
  let ?p = "\<lparr>problem_id = nextProblemId (view ?T ?w0), displayId = None, problem_type = type,
             isPublic = False, ownerId = user_id owner,
             locales = map contentLocale (localizedContents_of statement),
             submissionCount = 0, acceptedSubmissionCount = 0\<rparr>"
  let ?pid = "problem_id ?p"
  let ?head = "[SaveProblem ?p, SaveProblemJudgeInfo ?pid (gdj type),
                SaveProblemSample ?pid (samples_of statement)]"
  have "\<exists>wa. execute fails ?T (SaveProblem ?p) ?w0 = (Inr (), wa)"
    using nofail by (simp add: execute_cases)
  then obtain wa where s1: "execute fails ?T (SaveProblem ?p) ?w0 = (Inr (), wa)" ..
  have "\<exists>wb. execute fails ?T (SaveProblemJudgeInfo ?pid (gdj type)) wa = (Inr (), wb)"
    using nofail by (simp add: execute_cases)
  then obtain wb where s2: "execute fails ?T (SaveProblemJudgeInfo ?pid (gdj type)) wa = (Inr (), wb)" ..
  have "\<exists>wc. execute fails ?T (SaveProblemSample ?pid (samples_of statement)) wb = (Inr (), wc)"
    using nofail by (simp add: execute_cases)
  then obtain wc where s3: "execute fails ?T (SaveProblemSample ?pid (samples_of statement)) wb = (Inr (), wc)" ..
  obtain wd where "forEach (execute fails ?T)
      (concat (map (creationsOf sf ?pid) (localizedContents_of statement))) wc = (Inr (), wd)"
    using forEach_execute_returns[of "concat (map (creationsOf sf ?pid) (localizedContents_of statement))"
        fails ?T wc]
      harmless_statements(4)[of sf ?pid "localizedContents_of statement"] nofail by auto
  then have s4: "forEach (createLocalizedContent fails sf ?pid) (localizedContents_of statement) wc =
      (Inr (), wd)"
    using forEach_concat[of "createLocalizedContent fails sf ?pid" "execute fails ?T"
        "creationsOf sf ?pid" "localizedContents_of statement" wc]
    by (simp add: createLocalizedContent_forEach)
  obtain we where "forEach (execute fails ?T) (tagStatements ?pid tags) wd = (Inr (), we)"
    using forEach_execute_returns[of "tagStatements ?pid tags" fails ?T wd]
      harmless_statements(5)[of ?pid tags] nofail by auto
  then have s5: "setProblemTags fails ?p tags ?T wd = (Inr (), we)"
    by (simp add: setProblemTags_forEach)
  have "fst (createProblem fails sf gdj owner type statement tags w) = Inr ?p"
    using s1 s2 s3 s4 s5
    by (simp add: createProblem_def transaction_def Let_def andThen_def)
  then show ?thesis ..
qed

section \<open>The effect of a statement update\<close>

text \<open>The definitions that evaluate a call on a given store.\<close>

lemmas run_defs =
  updateProblemStatement_def updateProblemStatement_callback_def updateSample_def
  deleteLocale_def updateLocalizedContent_def setProblemTags_def
  localizedContentService_createOrUpdate_def localizedContentService_delete_def
  execute_def andThen_def finish_def commitTransaction_def rollbackTransaction_def
  beginTransaction_def Let_def

lemma updateProblemStatement_effect:
  assumes ok: "updateProblemStatement fails stringify problem request tags w = (Inr True, p1, w1)"
  shows
   "(\<forall>l \<in> set (locales problem).
       l \<notin> requestLocale ` set (requestLocalizedContents request) \<longrightarrow>
       localizedContents (committed w1) (problem_id problem, PROBLEM_TITLE, l) = None \<and>
       localizedContents (committed w1) (problem_id problem, PROBLEM_CONTENT, l) = None) \<and>
    (\<forall>l \<in> requestLocale ` set (requestLocalizedContents request).
       localizedContents (committed w1) (problem_id problem, PROBLEM_TITLE, l) =
         (if requestedTitles (requestLocalizedContents request) l = []
          then localizedContents (committed w) (problem_id problem, PROBLEM_TITLE, l)
          else Some (last (requestedTitles (requestLocalizedContents request) l))) \<and>
       localizedContents (committed w1) (problem_id problem, PROBLEM_CONTENT, l) =
         (if requestedContents stringify (requestLocalizedContents request) l = []
          then localizedContents (committed w) (problem_id problem, PROBLEM_CONTENT, l)
          else Some (last (requestedContents stringify (requestLocalizedContents request) l)))) \<and>
    (distinct (map requestLocale (requestLocalizedContents request)) \<longrightarrow>
       (\<forall>e \<in> set (requestLocalizedContents request).
          localizedContents (committed w1) (problem_id problem, PROBLEM_TITLE, requestLocale e) =
            (case requestTitle e of
               None \<Rightarrow> localizedContents (committed w)
                         (problem_id problem, PROBLEM_TITLE, requestLocale e)
             | Some t \<Rightarrow> Some t) \<and>
          localizedContents (committed w1) (problem_id problem, PROBLEM_CONTENT, requestLocale e) =
            (case requestContentSections e of
               None \<Rightarrow> localizedContents (committed w)
                         (problem_id problem, PROBLEM_CONTENT, requestLocale e)
             | Some c \<Rightarrow> Some (stringify c)))) \<and>
    p1 = problem\<lparr>locales := map requestLocale (requestLocalizedContents request)\<rparr> \<and>
    find (\<lambda>q. problem_id q = problem_id problem) (problems (committed w1)) = Some p1 \<and>
    map snd (drop (length (issued w)) (issued w1)) =
      sampleStatements (problem_id problem) (requestSamples request) @
      concat (map (deletionsOf (problem_id problem))
        (filter (\<lambda>l. l \<notin> set (map requestLocale (requestLocalizedContents request)))
           (locales problem))) @
      concat (map (upsertsOf stringify (problem_id problem)) (requestLocalizedContents request)) @
      tagStatements (problem_id problem) tags @ [SaveProblem p1]"
proof -
  let ?pid = "problem_id problem"
  let ?req = "requestLocalizedContents request"
  note lc = localized_after_update[OF ok]
  note su = updateProblemStatement_success[OF ok]
  have removed: "localizedContents (committed w1) (?pid, PROBLEM_TITLE, l) = None \<and>
       localizedContents (committed w1) (?pid, PROBLEM_CONTENT, l) = None"
    if "l \<in> set (locales problem)" "l \<notin> requestLocale ` set ?req" for l
    using that by (simp add: lc)
  have kept: "localizedContents (committed w1) (?pid, PROBLEM_TITLE, l) =
         (if requestedTitles ?req l = []
          then localizedContents (committed w) (?pid, PROBLEM_TITLE, l)
          else Some (last (requestedTitles ?req l))) \<and>
       localizedContents (committed w1) (?pid, PROBLEM_CONTENT, l) =
         (if requestedContents stringify ?req l = []
          then localizedContents (committed w) (?pid, PROBLEM_CONTENT, l)
          else Some (last (requestedContents stringify ?req l)))"
    if "l \<in> requestLocale ` set ?req" for l
    using that by (simp add: lc foldl_upserts_title foldl_upserts_content)
  have single: "localizedContents (committed w1) (?pid, PROBLEM_TITLE, requestLocale e) =
            (case requestTitle e of
               None \<Rightarrow> localizedContents (committed w) (?pid, PROBLEM_TITLE, requestLocale e)
             | Some t \<Rightarrow> Some t) \<and>
          localizedContents (committed w1) (?pid, PROBLEM_CONTENT, requestLocale e) =
            (case requestContentSections e of
               None \<Rightarrow> localizedContents (committed w) (?pid, PROBLEM_CONTENT, requestLocale e)
             | Some c \<Rightarrow> Some (stringify c))"
    if d: "distinct (map requestLocale ?req)" and e: "e \<in> set ?req" for e
  proof -
    from e have "requestLocale e \<in> requestLocale ` set ?req" by (rule imageI)
    from kept[OF this] show ?thesis
      by (simp add: requestedTitles_distinct[OF d e] requestedContents_distinct[OF d e]
            split: option.split)
  qed
  have p1: "p1 = problem\<lparr>locales := map requestLocale ?req\<rparr>"
    using su by simp
  have row: "find (\<lambda>q. problem_id q = ?pid) (problems (committed w1)) = Some p1"
    using find_saveProblemRow[of p1 "problems (committed w)"] problems_after_update(1)[OF ok]
    by (simp add: p1)
  have trace: "map snd (drop (length (issued w)) (issued w1)) =
      sampleStatements ?pid (requestSamples request) @
      concat (map (deletionsOf ?pid)
        (filter (\<lambda>l. l \<notin> set (map requestLocale ?req)) (locales problem))) @
      concat (map (upsertsOf stringify ?pid) ?req) @
      tagStatements ?pid tags @ [SaveProblem p1]"
    using su by (simp add: comp_def)
  from removed kept single p1 row trace show ?thesis by blast
qed

text \<open>
  C3. \<^verbatim>\<open>updateProblemStatement\<close> returns true when the store fails no statement, the
  sample row exists if samples are given, and the display id of the problem object is
  not held by another problem. Whenever it returns, then in the committed store: every
  locale of the problem's current \<open>locales\<close> that the request does not list has neither
  a title row nor a content row; for every listed locale the title (content) row holds
  the last non-null title (serialised content sections) the request gives for it, and
  is the row of before when the request gives none; so, when the request lists every
  locale once, a non-null field is stored and a null field leaves the stored value
  untouched; the problem object and its stored row have \<open>locales\<close> equal to the list
  of the request's locales. The statements sent are, in order, the sample overwrite if
  asked for, the two deletions per removed locale, the upserts of the non-null fields,
  the tag replacement and the save of the problem row.
\<close>

theorem C3_updateProblemStatement:
  "((\<forall>s. \<not> fails s) \<and>
    (requestSamples request \<noteq> None \<longrightarrow>
       problemSamples (committed w) (problem_id problem) \<noteq> None) \<and>
    \<not> violatesConstraint (SaveProblem problem) (committed w) \<longrightarrow>
      fst (updateProblemStatement fails stringify problem request tags w) = Inr True) \<and>
   (updateProblemStatement fails stringify problem request tags w = (Inr True, p1, w1) \<longrightarrow>
    (\<forall>l \<in> set (locales problem).
       l \<notin> requestLocale ` set (requestLocalizedContents request) \<longrightarrow>
       localizedContents (committed w1) (problem_id problem, PROBLEM_TITLE, l) = None \<and>
       localizedContents (committed w1) (problem_id problem, PROBLEM_CONTENT, l) = None) \<and>
    (\<forall>l \<in> requestLocale ` set (requestLocalizedContents request).
       localizedContents (committed w1) (problem_id problem, PROBLEM_TITLE, l) =
         (if requestedTitles (requestLocalizedContents request) l = []
          then localizedContents (committed w) (problem_id problem, PROBLEM_TITLE, l)
          else Some (last (requestedTitles (requestLocalizedContents request) l))) \<and>
       localizedContents (committed w1) (problem_id problem, PROBLEM_CONTENT, l) =
         (if requestedContents stringify (requestLocalizedContents request) l = []
          then localizedContents (committed w) (problem_id problem, PROBLEM_CONTENT, l)
          else Some (last (requestedContents stringify (requestLocalizedContents request) l)))) \<and>
    (distinct (map requestLocale (requestLocalizedContents request)) \<longrightarrow>
       (\<forall>e \<in> set (requestLocalizedContents request).
          localizedContents (committed w1) (problem_id problem, PROBLEM_TITLE, requestLocale e) =
            (case requestTitle e of
               None \<Rightarrow> localizedContents (committed w)
                         (problem_id problem, PROBLEM_TITLE, requestLocale e)
             | Some t \<Rightarrow> Some t) \<and>
          localizedContents (committed w1) (problem_id problem, PROBLEM_CONTENT, requestLocale e) =
            (case requestContentSections e of
               None \<Rightarrow> localizedContents (committed w)
                         (problem_id problem, PROBLEM_CONTENT, requestLocale e)
             | Some c \<Rightarrow> Some (stringify c)))) \<and>
    p1 = problem\<lparr>locales := map requestLocale (requestLocalizedContents request)\<rparr> \<and>
    find (\<lambda>q. problem_id q = problem_id problem) (problems (committed w1)) = Some p1 \<and>
    map snd (drop (length (issued w)) (issued w1)) =
      sampleStatements (problem_id problem) (requestSamples request) @
      concat (map (deletionsOf (problem_id problem))
        (filter (\<lambda>l. l \<notin> set (map requestLocale (requestLocalizedContents request)))
           (locales problem))) @
      concat (map (upsertsOf stringify (problem_id problem)) (requestLocalizedContents request)) @
      tagStatements (problem_id problem) tags @ [SaveProblem p1])"
  (is "_ \<and> (?returned \<longrightarrow> ?effect)")
proof (rule conjI)
  show "(\<forall>s. \<not> fails s) \<and>
    (requestSamples request \<noteq> None \<longrightarrow>
       problemSamples (committed w) (problem_id problem) \<noteq> None) \<and>
    \<not> violatesConstraint (SaveProblem problem) (committed w) \<longrightarrow>
      fst (updateProblemStatement fails stringify problem request tags w) = Inr True"
  proof (rule impI)
    assume c: "(\<forall>s. \<not> fails s) \<and>
      (requestSamples request \<noteq> None \<longrightarrow>
         problemSamples (committed w) (problem_id problem) \<noteq> None) \<and>
      \<not> violatesConstraint (SaveProblem problem) (committed w)"
    show "fst (updateProblemStatement fails stringify problem request tags w) = Inr True"
    proof (rule updateProblemStatement_returns)
      show "\<not> fails s" for s using c by blast
      show "problemSamples (committed w) (problem_id problem) \<noteq> None"
        if "requestSamples request \<noteq> None" using c that by blast
      show "\<not> violatesConstraint (SaveProblem problem) (committed w)" using c by blast
    qed
  qed
next
  show "?returned \<longrightarrow> ?effect"
  proof (rule impI)
    assume ?returned
    then show ?effect by (rule updateProblemStatement_effect)
  qed
qed

text \<open>
  The scenario of section 8 of the specification: the statement exists in \<open>en\<close> and
  \<open>zh\<close>, and the update names \<open>en\<close> with a title and no content sections. Then the
  statement is replaced by one in \<open>fr\<close> with a title, content sections and samples.
  That both calls return is taken from the theorem.
\<close>

theorem C3_updateProblemStatement_witness:
  "fst (updateProblemStatement noFailure (\<lambda>c. c) (problemRow 1 None [''en'', ''zh''])
          titleOnlyRequest [] (idle statementStore)) = Inr True \<and>
   localizedContents (committed (snd (snd
       (updateProblemStatement noFailure (\<lambda>c. c) (problemRow 1 None [''en'', ''zh''])
          titleOnlyRequest [] (idle statementStore))))) (1, PROBLEM_TITLE, ''en'') = Some ''A+B'' \<and>
   localizedContents (committed (snd (snd
       (updateProblemStatement noFailure (\<lambda>c. c) (problemRow 1 None [''en'', ''zh''])
          titleOnlyRequest [] (idle statementStore))))) (1, PROBLEM_CONTENT, ''en'') = Some ''Add.'' \<and>
   localizedContents (committed (snd (snd
       (updateProblemStatement noFailure (\<lambda>c. c) (problemRow 1 None [''en'', ''zh''])
          titleOnlyRequest [] (idle statementStore))))) (1, PROBLEM_TITLE, ''zh'') = None \<and>
   localizedContents (committed (snd (snd
       (updateProblemStatement noFailure (\<lambda>c. c) (problemRow 1 None [''en'', ''zh''])
          titleOnlyRequest [] (idle statementStore))))) (1, PROBLEM_CONTENT, ''zh'') = None \<and>
   locales (fst (snd
       (updateProblemStatement noFailure (\<lambda>c. c) (problemRow 1 None [''en'', ''zh''])
          titleOnlyRequest [] (idle statementStore)))) = [''en''] \<and>
   fst (updateProblemStatement noFailure (\<lambda>c. c) (problemRow 1 None [''en'', ''zh''])
          frenchRequest [tagRow 6] (idle statementStore)) = Inr True \<and>
   localizedContents (committed (snd (snd
       (updateProblemStatement noFailure (\<lambda>c. c) (problemRow 1 None [''en'', ''zh''])
          frenchRequest [tagRow 6] (idle statementStore))))) (1, PROBLEM_TITLE, ''fr'') =
     Some ''Somme'' \<and>
   localizedContents (committed (snd (snd
       (updateProblemStatement noFailure (\<lambda>c. c) (problemRow 1 None [''en'', ''zh''])
          frenchRequest [tagRow 6] (idle statementStore))))) (1, PROBLEM_CONTENT, ''fr'') =
     Some ''Additionner.'' \<and>
   localizedContents (committed (snd (snd
       (updateProblemStatement noFailure (\<lambda>c. c) (problemRow 1 None [''en'', ''zh''])
          frenchRequest [tagRow 6] (idle statementStore))))) (1, PROBLEM_CONTENT, ''en'') = None \<and>
   locales (fst (snd
       (updateProblemStatement noFailure (\<lambda>c. c) (problemRow 1 None [''en'', ''zh''])
          frenchRequest [tagRow 6] (idle statementStore)))) = [''fr'']"
proof -
  let ?X = "updateProblemStatement noFailure (\<lambda>c. c) (problemRow 1 None [''en'', ''zh''])
          titleOnlyRequest [] (idle statementStore)"
  let ?Y = "updateProblemStatement noFailure (\<lambda>c. c) (problemRow 1 None [''en'', ''zh''])
          frenchRequest [tagRow 6] (idle statementStore)"
  note tx = C3_updateProblemStatement [of noFailure titleOnlyRequest "idle statementStore"
      "problemRow 1 None [''en'', ''zh'']" "\<lambda>c. c" "[]" "fst (snd ?X)" "snd (snd ?X)"]
  note ty = C3_updateProblemStatement [of noFailure frenchRequest "idle statementStore"
      "problemRow 1 None [''en'', ''zh'']" "\<lambda>c. c" "[tagRow 6]" "fst (snd ?Y)" "snd (snd ?Y)"]
  have okx: "fst ?X = Inr True"
    using tx
    by (simp add: noFailure_def problemRow_def titleOnlyRequest_def idle_def statementStore_def
          emptyDatabase_def)
  have oky: "fst ?Y = Inr True"
    using ty
    by (simp add: noFailure_def problemRow_def frenchRequest_def idle_def statementStore_def
          emptyDatabase_def)
  from okx have x: "?X = (Inr True, fst (snd ?X), snd (snd ?X))"
    by (simp add: prod_eq_iff)
  from oky have y: "?Y = (Inr True, fst (snd ?Y), snd (snd ?Y))"
    by (simp add: prod_eq_iff)
  have ex: "localizedContents (committed (snd (snd ?X))) (1, PROBLEM_TITLE, ''en'') = Some ''A+B'' \<and>
    localizedContents (committed (snd (snd ?X))) (1, PROBLEM_CONTENT, ''en'') = Some ''Add.'' \<and>
    localizedContents (committed (snd (snd ?X))) (1, PROBLEM_TITLE, ''zh'') = None \<and>
    localizedContents (committed (snd (snd ?X))) (1, PROBLEM_CONTENT, ''zh'') = None \<and>
    locales (fst (snd ?X)) = [''en'']"
    using tx[THEN conjunct2, rule_format, OF x]
    by (simp add: problemRow_def titleOnlyRequest_def idle_def statementStore_def
          emptyDatabase_def requestedTitles_def requestedContents_def List.map_filter_def)
  have ey: "localizedContents (committed (snd (snd ?Y))) (1, PROBLEM_TITLE, ''fr'') = Some ''Somme'' \<and>
    localizedContents (committed (snd (snd ?Y))) (1, PROBLEM_CONTENT, ''fr'') = Some ''Additionner.'' \<and>
    localizedContents (committed (snd (snd ?Y))) (1, PROBLEM_CONTENT, ''en'') = None \<and>
    locales (fst (snd ?Y)) = [''fr'']"
    using ty[THEN conjunct2, rule_format, OF y]
    by (simp add: problemRow_def frenchRequest_def idle_def statementStore_def
          emptyDatabase_def requestedTitles_def requestedContents_def List.map_filter_def)
  from okx oky ex ey show ?thesis by simp
qed

section \<open>Atomicity of a statement update\<close>

text \<open>
  C1. The claim is that every write of \<^verbatim>\<open>updateProblemStatement\<close> runs inside the one
  transaction, so that a failure leaves nothing behind. The code sends the upserts of
  lines 293-305 without the \<^verbatim>\<open>transactionalEntityManager\<close>, unlike the deletions above
  them and unlike \<^verbatim>\<open>createProblem\<close>. Here the update of problem 1 names \<open>en\<close> with a
  new title and the store fails the insertion of the tag rows: the call throws and the
  transaction is rolled back (the rows of \<open>zh\<close>, the problem row and the tag rows are
  as before), but the title of \<open>en\<close> was sent on the connection and stays changed.
\<close>

theorem C1_upsert_outside_transaction:
  "fst (updateProblemStatement failsTagInsert (\<lambda>c. c) (problemRow 1 None [''en'', ''zh''])
          titleOnlyRequest [tagRow 6] (idle statementStore)) = Inl StorageFailure \<and>
   issued (snd (snd (updateProblemStatement failsTagInsert (\<lambda>c. c)
          (problemRow 1 None [''en'', ''zh'']) titleOnlyRequest [tagRow 6] (idle statementStore)))) =
     [(TransactionalEntityManager, DeleteLocalizedContent 1 PROBLEM_TITLE (Some ''zh'')),
      (TransactionalEntityManager, DeleteLocalizedContent 1 PROBLEM_CONTENT (Some ''zh'')),
      (ConnectionManager, UpsertLocalizedContent 1 PROBLEM_TITLE ''en'' ''A+B''),
      (TransactionalEntityManager, DeleteProblemTagMaps 1),
      (TransactionalEntityManager, InsertProblemTagMaps [(1, 6)])] \<and>
   localizedContents statementStore (1, PROBLEM_TITLE, ''en'') = Some ''Sum'' \<and>
   localizedContents (committed (snd (snd (updateProblemStatement failsTagInsert (\<lambda>c. c)
          (problemRow 1 None [''en'', ''zh'']) titleOnlyRequest [tagRow 6] (idle statementStore)))))
     (1, PROBLEM_TITLE, ''en'') = Some ''A+B'' \<and>
   localizedContents (committed (snd (snd (updateProblemStatement failsTagInsert (\<lambda>c. c)
          (problemRow 1 None [''en'', ''zh'']) titleOnlyRequest [tagRow 6] (idle statementStore)))))
     (1, PROBLEM_TITLE, ''zh'') = Some ''He'' \<and>
   problems (committed (snd (snd (updateProblemStatement failsTagInsert (\<lambda>c. c)
          (problemRow 1 None [''en'', ''zh'']) titleOnlyRequest [tagRow 6] (idle statementStore))))) =
     [problemRow 1 None [''en'', ''zh'']] \<and>
   problemTagMaps (committed (snd (snd (updateProblemStatement failsTagInsert (\<lambda>c. c)
          (problemRow 1 None [''en'', ''zh'']) titleOnlyRequest [tagRow 6] (idle statementStore))))) =
     [(1, 5)]"
  by (simp add: run_defs problemRow_def titleOnlyRequest_def idle_def tagRow_def
        statementStore_def emptyDatabase_def)

section \<open>The locales of a problem and its localized rows\<close>

lemma statementStore_consistent: "storeConsistent statementStore"
  by (auto simp: storeConsistent_def localesInvariant_def idsConsistent_def
        localesWithContent_def statementStore_def emptyDatabase_def problemRow_def
        split: if_splits)

text \<open>
  The store is consistent, and the update of problem 1 names the new locale \<open>fr\<close>
  with neither title nor content sections. The call returns true; afterwards the
  problem row has \<open>locales = [fr]\<close> and no locale of the problem has a title row, so
  the invariant does not hold.
\<close>

theorem C2_empty_locale_counterexample:
  "storeConsistent (committed (idle statementStore)) \<and>
   problemRow 1 None [''en'', ''zh''] \<in> set (problems (committed (idle statementStore))) \<and>
   fst (updateProblemStatement noFailure (\<lambda>c. c) (problemRow 1 None [''en'', ''zh''])
          emptyLocaleRequest [] (idle statementStore)) = Inr True \<and>
   problems (committed (snd (snd (updateProblemStatement noFailure (\<lambda>c. c)
          (problemRow 1 None [''en'', ''zh'']) emptyLocaleRequest [] (idle statementStore))))) =
     [problemRow 1 None [''fr'']] \<and>
   localesWithContent (committed (snd (snd (updateProblemStatement noFailure (\<lambda>c. c)
          (problemRow 1 None [''en'', ''zh'']) emptyLocaleRequest [] (idle statementStore))))) 1 = {} \<and>
   \<not> localesInvariant (committed (snd (snd (updateProblemStatement noFailure (\<lambda>c. c)
          (problemRow 1 None [''en'', ''zh'']) emptyLocaleRequest [] (idle statementStore)))))"
proof -
  let ?X = "updateProblemStatement noFailure (\<lambda>c. c)
          (problemRow 1 None [''en'', ''zh'']) emptyLocaleRequest [] (idle statementStore)"
  have ok: "fst ?X = Inr True"
    by (simp add: run_defs noFailure_def problemRow_def emptyLocaleRequest_def idle_def
          statementStore_def emptyDatabase_def)
  have rows: "problems (committed (snd (snd ?X))) = [problemRow 1 None [''fr'']]"
    by (simp add: run_defs noFailure_def problemRow_def emptyLocaleRequest_def idle_def
          statementStore_def emptyDatabase_def saveProblemRow_def)
  have none: "localizedContents (committed (snd (snd ?X))) (1, PROBLEM_TITLE, l) = None" for l
    by (simp add: run_defs noFailure_def problemRow_def emptyLocaleRequest_def idle_def
          statementStore_def emptyDatabase_def)
  then have empty: "localesWithContent (committed (snd (snd ?X))) 1 = {}"
    by (simp add: localesWithContent_def)
  have "\<not> localesInvariant (committed (snd (snd ?X)))"
    unfolding localesInvariant_def rows using empty by (simp add: problemRow_def)
  with ok rows empty statementStore_consistent show ?thesis
    by (simp add: idle_def) (simp add: statementStore_def emptyDatabase_def)
qed

lemma createProblem_success:
  assumes ok: "createProblem fails sf gdj owner type statement tags w = (Inr p, w1)"
  shows "problem_id p = nextProblemId (committed w) \<and>
    locales p = map contentLocale (localizedContents_of statement) \<and>
    committed w1 =
      foldl (\<lambda>db s. applyStatement s db) (committed w)
        ([SaveProblem p, SaveProblemJudgeInfo (problem_id p) (gdj type),
          SaveProblemSample (problem_id p) (samples_of statement)] @
         concat (map (creationsOf sf (problem_id p)) (localizedContents_of statement)) @
         tagStatements (problem_id p) tags)"
proof -
  let ?T = TransactionalEntityManager
  let ?w0 = "beginTransaction w"
  let ?p = "\<lparr>problem_id = nextProblemId (view ?T ?w0), displayId = None, problem_type = type,
             isPublic = False, ownerId = user_id owner,
             locales = map contentLocale (localizedContents_of statement),
             submissionCount = 0, acceptedSubmissionCount = 0\<rparr>"
  let ?body = "andThen (execute fails ?T (SaveProblem ?p) ?w0) (\<lambda>_ w1.
       andThen (execute fails ?T (SaveProblemJudgeInfo (problem_id ?p) (gdj type)) w1) (\<lambda>_ w2.
       andThen (execute fails ?T (SaveProblemSample (problem_id ?p) (samples_of statement)) w2)
         (\<lambda>_ w3.
       andThen (forEach (createLocalizedContent fails sf (problem_id ?p))
                  (localizedContents_of statement) w3) (\<lambda>_ w4.
       andThen (setProblemTags fails ?p tags ?T w4) (\<lambda>_ w5.
       (Inr ?p, w5))))))"
  obtain r wz where body: "?body = (r, wz)" by (cases ?body)
  with ok have r: "r = Inr p" and w1: "w1 = commitTransaction wz"
    by (auto simp: createProblem_def transaction_def Let_def finish_def split: sum.splits)
  from body[unfolded r] obtain u1 wa where
    s1: "execute fails ?T (SaveProblem ?p) ?w0 = (Inr u1, wa)" and
    b1: "andThen (execute fails ?T (SaveProblemJudgeInfo (problem_id ?p) (gdj type)) wa) (\<lambda>_ w2.
       andThen (execute fails ?T (SaveProblemSample (problem_id ?p) (samples_of statement)) w2)
         (\<lambda>_ w3.
       andThen (forEach (createLocalizedContent fails sf (problem_id ?p))
                  (localizedContents_of statement) w3) (\<lambda>_ w4.
       andThen (setProblemTags fails ?p tags ?T w4) (\<lambda>_ w5.
       (Inr ?p, w5))))) = (Inr p, wz)"
    by (rule andThen_Inr)
  from b1 obtain u2 wb where
    s2: "execute fails ?T (SaveProblemJudgeInfo (problem_id ?p) (gdj type)) wa = (Inr u2, wb)" and
    b2: "andThen (execute fails ?T (SaveProblemSample (problem_id ?p) (samples_of statement)) wb)
         (\<lambda>_ w3.
       andThen (forEach (createLocalizedContent fails sf (problem_id ?p))
                  (localizedContents_of statement) w3) (\<lambda>_ w4.
       andThen (setProblemTags fails ?p tags ?T w4) (\<lambda>_ w5.
       (Inr ?p, w5)))) = (Inr p, wz)"
    by (rule andThen_Inr)
  from b2 obtain u3 wc where
    s3: "execute fails ?T (SaveProblemSample (problem_id ?p) (samples_of statement)) wb =
           (Inr u3, wc)" and
    b3: "andThen (forEach (createLocalizedContent fails sf (problem_id ?p))
                  (localizedContents_of statement) wc) (\<lambda>_ w4.
       andThen (setProblemTags fails ?p tags ?T w4) (\<lambda>_ w5.
       (Inr ?p, w5))) = (Inr p, wz)"
    by (rule andThen_Inr)
  from b3 obtain u4 wd where
    s4: "forEach (createLocalizedContent fails sf (problem_id ?p))
                  (localizedContents_of statement) wc = (Inr u4, wd)" and
    b4: "andThen (setProblemTags fails ?p tags ?T wd) (\<lambda>_ w5. (Inr ?p, w5)) = (Inr p, wz)"
    by (rule andThen_Inr)
  from b4 obtain u5 where
    s5: "setProblemTags fails ?p tags ?T wd = (Inr u5, wz)" and p: "p = ?p"
    by (auto elim!: andThen_Inr)
  note f1 = execute_transactional_Inr(1)[OF s1]
  note f2 = execute_transactional_Inr(1)[OF s2]
  note f3 = execute_transactional_Inr(1)[OF s3]
  have "forEach (execute fails ?T)
          (concat (map (creationsOf sf (problem_id ?p)) (localizedContents_of statement))) wc =
          (Inr u4, wd)"
    using s4 forEach_concat[of "createLocalizedContent fails sf (problem_id ?p)"
        "execute fails ?T" "creationsOf sf (problem_id ?p)" "localizedContents_of statement" wc]
    by (simp add: createLocalizedContent_forEach)
  note f4 = forEach_transactional[OF this]
  have "forEach (execute fails ?T) (tagStatements (problem_id ?p) tags) wd = (Inr u5, wz)"
    using s5 by (simp add: setProblemTags_forEach)
  note f5 = forEach_transactional[OF this]
  show ?thesis
    unfolding w1 f5 f4 f3 f2 f1 p
    by (simp add: commitTransaction_def beginTransaction_def)
qed

lemma set_saveProblemRow:
  assumes "q \<in> set (saveProblemRow p rows)"
  shows "q = p \<or> (q \<in> set rows \<and> problem_id q \<noteq> problem_id p)"
proof (cases "list_ex (\<lambda>q. problem_id q = problem_id p) rows")
  case True
  with assms show ?thesis by (auto simp: saveProblemRow_def split: if_splits)
next
  case False
  with assms show ?thesis by (auto simp: saveProblemRow_def list_ex_iff)
qed

lemma self_in_saveProblemRow: "p \<in> set (saveProblemRow p rows)"
proof (cases "list_ex (\<lambda>q. problem_id q = problem_id p) rows")
  case True
  then obtain q where "q \<in> set rows" "problem_id q = problem_id p"
    by (auto simp: list_ex_iff)
  then have "p \<in> (\<lambda>q. if problem_id q = problem_id p then p else q) ` set rows"
    by (auto simp: image_iff intro!: bexI[of _ q])
  with True show ?thesis by (simp add: saveProblemRow_def)
next
  case False
  then show ?thesis by (simp add: saveProblemRow_def)
qed

lemma foldl_creations_frame [simp]:
  "problems (foldl (\<lambda>db s. applyStatement s db) db (concat (map (creationsOf sf pid) lcs))) =
     problems db"
  "nextProblemId (foldl (\<lambda>db s. applyStatement s db) db (concat (map (creationsOf sf pid) lcs))) =
     nextProblemId db"
  by (induction lcs arbitrary: db) (simp_all add: creationsOf_def)

lemma foldl_creations_other:
  assumes "fst k \<noteq> pid"
  shows "localizedContents
     (foldl (\<lambda>db s. applyStatement s db) db (concat (map (creationsOf sf pid) lcs))) k =
     localizedContents db k"
  using assms
proof (induction lcs rule: rev_induct)
  case Nil
  then show ?case by simp
next
  case (snoc e lcs)
  then show ?case by (cases k) (auto simp: creationsOf_def)
qed

lemma foldl_creations_title:
  "(localizedContents
      (foldl (\<lambda>db s. applyStatement s db) db (concat (map (creationsOf sf pid) lcs)))
      (pid, PROBLEM_TITLE, l) \<noteq> None) =
   (l \<in> contentLocale ` set lcs \<or> localizedContents db (pid, PROBLEM_TITLE, l) \<noteq> None)"
proof (induction lcs rule: rev_induct)
  case Nil
  then show ?case by simp
next
  case (snoc e lcs)
  then show ?case by (auto simp: creationsOf_def)
qed

lemma foldl_creations_content:
  "(localizedContents
      (foldl (\<lambda>db s. applyStatement s db) db (concat (map (creationsOf sf pid) lcs)))
      (pid, PROBLEM_CONTENT, l) \<noteq> None) =
   (l \<in> contentLocale ` set lcs \<or> localizedContents db (pid, PROBLEM_CONTENT, l) \<noteq> None)"
proof (induction lcs rule: rev_induct)
  case Nil
  then show ?case by simp
next
  case (snoc e lcs)
  then show ?case by (auto simp: creationsOf_def)
qed

lemma createProblem_consistent:
  assumes inv: "storeConsistent (committed w)"
    and ok: "createProblem fails sf gdj owner type statement tags w = (Inr p, w1)"
  shows "storeConsistent (committed w1) \<and> p \<in> set (problems (committed w1)) \<and>
         set (locales p) = localesWithContent (committed w1) (problem_id p)"
proof -
  let ?db = "committed w" and ?db1 = "committed w1"
  let ?pid = "problem_id p"
  let ?lcs = "localizedContents_of statement"
  note su = createProblem_success[OF ok]
  from su have pid: "?pid = nextProblemId ?db" and loc: "locales p = map contentLocale ?lcs"
    by simp_all
  have P: "problems ?db1 = saveProblemRow p (problems ?db)"
    using su by simp
  have N: "nextProblemId ?db1 = Suc (nextProblemId ?db)"
    using su by (simp add: pid)
  have LO: "localizedContents ?db1 k = localizedContents ?db k" if "fst k \<noteq> ?pid" for k
    using su that by (simp add: foldl_creations_other)
  have LT: "(localizedContents ?db1 (?pid, PROBLEM_TITLE, l) \<noteq> None) =
      (l \<in> contentLocale ` set ?lcs \<or> localizedContents ?db (?pid, PROBLEM_TITLE, l) \<noteq> None)" for l
    using su by (simp add: foldl_creations_title del: not_None_eq)
  have LC: "(localizedContents ?db1 (?pid, PROBLEM_CONTENT, l) \<noteq> None) =
      (l \<in> contentLocale ` set ?lcs \<or> localizedContents ?db (?pid, PROBLEM_CONTENT, l) \<noteq> None)" for l
    using su by (simp add: foldl_creations_content del: not_None_eq)
  from inv have ids: "\<forall>q \<in> set (problems ?db). problem_id q < nextProblemId ?db"
    and orph: "\<And>i l. nextProblemId ?db \<le> i \<Longrightarrow>
         localizedContents ?db (i, PROBLEM_TITLE, l) = None \<and>
         localizedContents ?db (i, PROBLEM_CONTENT, l) = None"
    and li: "\<forall>q \<in> set (problems ?db). set (locales q) = localesWithContent ?db (problem_id q)"
    by (auto simp: storeConsistent_def idsConsistent_def localesInvariant_def)
  have new: "localesWithContent ?db1 ?pid = set (locales p)"
    using orph[of ?pid] LT LC by (auto simp: localesWithContent_def loc pid)
  have old: "localesWithContent ?db1 (problem_id q) = localesWithContent ?db (problem_id q)"
    if "problem_id q \<noteq> ?pid" for q :: ProblemEntity
    using that by (simp add: localesWithContent_def LO)
  have "localesInvariant ?db1"
    unfolding localesInvariant_def P
    using set_saveProblemRow[of _ p "problems ?db"] new old li by metis
  moreover have "idsConsistent ?db1"
    unfolding idsConsistent_def
  proof (intro conjI ballI allI impI)
    fix q assume "q \<in> set (problems ?db1)"
    with set_saveProblemRow[of q p "problems ?db"] ids show "problem_id q < nextProblemId ?db1"
      by (auto simp: P N pid)
  next
    fix i l assume "nextProblemId ?db1 \<le> i"
    then have "i \<noteq> ?pid" "nextProblemId ?db \<le> i" by (simp_all add: N pid)
    with orph[of i l] LO[of "(i, PROBLEM_TITLE, l)"]
    show "localizedContents ?db1 (i, PROBLEM_TITLE, l) = None" by simp
  next
    fix i l assume "nextProblemId ?db1 \<le> i"
    then have "i \<noteq> ?pid" "nextProblemId ?db \<le> i" by (simp_all add: N pid)
    with orph[of i l] LO[of "(i, PROBLEM_CONTENT, l)"]
    show "localizedContents ?db1 (i, PROBLEM_CONTENT, l) = None" by simp
  qed
  ultimately show ?thesis
    using new self_in_saveProblemRow[of p "problems ?db"] by (simp add: storeConsistent_def P)
qed

lemma requestedTitles_empty:
  "l \<notin> requestLocale ` set req \<Longrightarrow> requestedTitles req l = []"
  by (auto simp: requestedTitles_def List.map_filter_def filter_empty_conv)

lemma requestedContents_empty:
  "l \<notin> requestLocale ` set req \<Longrightarrow> requestedContents sf req l = []"
  by (auto simp: requestedContents_def List.map_filter_def filter_empty_conv)

lemma requestedTitles_nonempty:
  "e \<in> set req \<Longrightarrow> requestTitle e \<noteq> None \<Longrightarrow> requestedTitles req (requestLocale e) \<noteq> []"
  by (auto simp: requestedTitles_def List.map_filter_def filter_empty_conv)

lemma requestedContents_nonempty:
  "e \<in> set req \<Longrightarrow> requestContentSections e \<noteq> None \<Longrightarrow>
   requestedContents sf req (requestLocale e) \<noteq> []"
  by (auto simp: requestedContents_def List.map_filter_def filter_empty_conv)

lemma updateProblemStatement_consistent:
  assumes inv: "storeConsistent (committed w)"
    and mem: "problem \<in> set (problems (committed w))"
    and ok: "updateProblemStatement fails sf problem request tags w = (Inr True, p1, w1)"
  shows "(\<forall>q \<in> set (problems (committed w1)).
            localesWithContent (committed w1) (problem_id q) \<subseteq> set (locales q)) \<and>
         (\<forall>q \<in> set (problems (committed w1)). problem_id q \<noteq> problem_id problem \<longrightarrow>
            set (locales q) = localesWithContent (committed w1) (problem_id q)) \<and>
         idsConsistent (committed w1) \<and>
         ((\<forall>e \<in> set (requestLocalizedContents request).
             requestLocale e \<notin> set (locales problem) \<longrightarrow>
             requestTitle e \<noteq> None \<and> requestContentSections e \<noteq> None) \<longrightarrow>
          storeConsistent (committed w1))"
proof -
  let ?db = "committed w" and ?db1 = "committed w1"
  let ?pid = "problem_id problem"
  let ?req = "requestLocalizedContents request"
  let ?new = "requestLocale ` set ?req"
  let ?old = "set (locales problem)"
  note su = updateProblemStatement_success[OF ok]
  note lc = localized_after_update[OF ok]
  from su have p1: "p1 = problem\<lparr>locales := map requestLocale ?req\<rparr>" by simp
  have pid1: "problem_id p1 = ?pid" and loc1: "set (locales p1) = ?new"
    by (simp_all add: p1)
  from inv have ids: "\<forall>q \<in> set (problems ?db). problem_id q < nextProblemId ?db"
    and orph: "\<And>i l. nextProblemId ?db \<le> i \<Longrightarrow>
         localizedContents ?db (i, PROBLEM_TITLE, l) = None \<and>
         localizedContents ?db (i, PROBLEM_CONTENT, l) = None"
    and li: "\<forall>q \<in> set (problems ?db). set (locales q) = localesWithContent ?db (problem_id q)"
    by (auto simp: storeConsistent_def idsConsistent_def localesInvariant_def)
  from li mem have old: "?old = localesWithContent ?db ?pid" by blast
  from ids mem have below: "?pid < nextProblemId ?db" by blast
  have P: "problems ?db1 = saveProblemRow p1 (problems ?db)"
    by (rule problems_after_update(1)[OF ok])
  have N: "nextProblemId ?db1 = nextProblemId ?db"
    using problems_after_update(2)[OF ok] below by (simp add: pid1)
  have LO: "localizedContents ?db1 k = localizedContents ?db k" if "fst k \<noteq> ?pid" for k
    using that by (simp add: lc foldl_upserts_other)
  have LT: "localizedContents ?db1 (?pid, PROBLEM_TITLE, l) =
      (if l \<in> ?old \<and> l \<notin> ?new then None
       else if requestedTitles ?req l = [] then localizedContents ?db (?pid, PROBLEM_TITLE, l)
       else Some (last (requestedTitles ?req l)))" for l
    by (simp add: lc foldl_upserts_title)
  have LC: "localizedContents ?db1 (?pid, PROBLEM_CONTENT, l) =
      (if l \<in> ?old \<and> l \<notin> ?new then None
       else if requestedContents sf ?req l = [] then localizedContents ?db (?pid, PROBLEM_CONTENT, l)
       else Some (last (requestedContents sf ?req l)))" for l
    by (simp add: lc foldl_upserts_content)
  have sub: "localesWithContent ?db1 ?pid \<subseteq> ?new"
  proof
    fix l assume l: "l \<in> localesWithContent ?db1 ?pid"
    show "l \<in> ?new"
    proof (rule ccontr)
      assume n: "l \<notin> ?new"
      with l have "l \<notin> ?old"
        by (auto simp: localesWithContent_def LT)
      moreover from l n have "l \<in> localesWithContent ?db ?pid"
        by (auto simp: localesWithContent_def LT LC requestedTitles_empty requestedContents_empty
              split: if_splits)
      ultimately show False using old by simp
    qed
  qed
  have others: "localesWithContent ?db1 (problem_id q) = localesWithContent ?db (problem_id q)"
    if "problem_id q \<noteq> ?pid" for q :: ProblemEntity
    using that by (simp add: localesWithContent_def LO)
  have rows: "q = p1 \<or> (q \<in> set (problems ?db) \<and> problem_id q \<noteq> ?pid)"
    if "q \<in> set (problems ?db1)" for q
    using that set_saveProblemRow[of q p1 "problems ?db"] by (simp add: P pid1)
  have a: "\<forall>q \<in> set (problems ?db1). localesWithContent ?db1 (problem_id q) \<subseteq> set (locales q)"
  proof
    fix q assume "q \<in> set (problems ?db1)"
    from rows[OF this] show "localesWithContent ?db1 (problem_id q) \<subseteq> set (locales q)"
      using sub others li by (auto simp: pid1 loc1)
  qed
  have b: "\<forall>q \<in> set (problems ?db1). problem_id q \<noteq> ?pid \<longrightarrow>
            set (locales q) = localesWithContent ?db1 (problem_id q)"
  proof (intro ballI impI)
    fix q assume "q \<in> set (problems ?db1)" and ne: "problem_id q \<noteq> ?pid"
    from rows[OF this(1)] ne have "q \<in> set (problems ?db)" by (auto simp: pid1)
    with li others[OF ne] show "set (locales q) = localesWithContent ?db1 (problem_id q)"
      by simp
  qed
  have c: "idsConsistent ?db1"
    unfolding idsConsistent_def
  proof (intro conjI ballI allI impI)
    fix q assume "q \<in> set (problems ?db1)"
    from rows[OF this] ids below show "problem_id q < nextProblemId ?db1"
      by (auto simp: N pid1)
  next
    fix i l assume "nextProblemId ?db1 \<le> i"
    with below have "i \<noteq> ?pid" "nextProblemId ?db \<le> i" by (simp_all add: N)
    with orph[of i l] LO[of "(i, PROBLEM_TITLE, l)"]
    show "localizedContents ?db1 (i, PROBLEM_TITLE, l) = None" by simp
  next
    fix i l assume "nextProblemId ?db1 \<le> i"
    with below have "i \<noteq> ?pid" "nextProblemId ?db \<le> i" by (simp_all add: N)
    with orph[of i l] LO[of "(i, PROBLEM_CONTENT, l)"]
    show "localizedContents ?db1 (i, PROBLEM_CONTENT, l) = None" by simp
  qed
  have d: "storeConsistent ?db1"
    if complete: "\<forall>e \<in> set ?req. requestLocale e \<notin> ?old \<longrightarrow>
                    requestTitle e \<noteq> None \<and> requestContentSections e \<noteq> None"
  proof -
    have sup: "?new \<subseteq> localesWithContent ?db1 ?pid"
    proof
      fix l assume "l \<in> ?new"
      then obtain e where e: "e \<in> set ?req" and le: "l = requestLocale e" by auto
      show "l \<in> localesWithContent ?db1 ?pid"
      proof (cases "l \<in> ?old")
        case True
        with old have "localizedContents ?db (?pid, PROBLEM_TITLE, l) \<noteq> None"
          "localizedContents ?db (?pid, PROBLEM_CONTENT, l) \<noteq> None"
          by (auto simp: localesWithContent_def)
        with \<open>l \<in> ?new\<close> show ?thesis
          by (auto simp: localesWithContent_def LT LC)
      next
        case False
        with complete e le have "requestTitle e \<noteq> None" "requestContentSections e \<noteq> None"
          by auto
        from requestedTitles_nonempty[OF e this(1)]
          requestedContents_nonempty[OF e this(2), of sf] \<open>l \<in> ?new\<close>
        show ?thesis
          by (auto simp: localesWithContent_def LT LC le)
      qed
    qed
    with sub have eq: "localesWithContent ?db1 ?pid = ?new" by blast
    have "localesInvariant ?db1"
      unfolding localesInvariant_def
    proof
      fix q assume "q \<in> set (problems ?db1)"
      from rows[OF this] show "set (locales q) = localesWithContent ?db1 (problem_id q)"
        using eq others li by (auto simp: pid1 loc1)
    qed
    with c show ?thesis by (simp add: storeConsistent_def)
  qed
  from a b c d show ?thesis by blast
qed

text \<open>
  C2, amended. On a consistent store (the invariant holds for every stored problem,
  and the id counter is beyond every id in use), a \<^verbatim>\<open>createProblem\<close> that returns leaves
  the store consistent, and the created problem is stored with \<open>locales\<close> equal to the
  set of locales that have both rows. An \<^verbatim>\<open>updateProblemStatement\<close> that returns, for a
  stored problem, keeps the equality for every other problem, and for every problem
  each locale with both rows is in \<open>locales\<close>; the store is consistent again when every
  requested locale that was not in the problem's \<open>locales\<close> comes with a title and with
  content sections.
\<close>

theorem C2_locales_invariant:
  "(storeConsistent (committed w) \<and>
    createProblem fails sf gdj owner type statement tags w = (Inr p, w1) \<longrightarrow>
      storeConsistent (committed w1) \<and> p \<in> set (problems (committed w1)) \<and>
      set (locales p) = localesWithContent (committed w1) (problem_id p)) \<and>
   (storeConsistent (committed w) \<and> problem \<in> set (problems (committed w)) \<and>
    updateProblemStatement fails sf problem request tags w = (Inr True, p1, w2) \<longrightarrow>
      (\<forall>q \<in> set (problems (committed w2)).
         localesWithContent (committed w2) (problem_id q) \<subseteq> set (locales q)) \<and>
      (\<forall>q \<in> set (problems (committed w2)). problem_id q \<noteq> problem_id problem \<longrightarrow>
         set (locales q) = localesWithContent (committed w2) (problem_id q)) \<and>
      ((\<forall>e \<in> set (requestLocalizedContents request).
          requestLocale e \<notin> set (locales problem) \<longrightarrow>
          requestTitle e \<noteq> None \<and> requestContentSections e \<noteq> None) \<longrightarrow>
       storeConsistent (committed w2)))"
  using createProblem_consistent[of w fails sf gdj owner type statement tags p w1]
    updateProblemStatement_consistent[of w problem fails sf request tags p1 w2]
  by blast

text \<open>
  A problem created with a statement in \<open>fr\<close>, and the statement of problem 1 replaced
  by one in \<open>fr\<close>.
\<close>

theorem C2_locales_invariant_witness:
  "storeConsistent (committed (snd
     (createProblem noFailure (\<lambda>c. c) (\<lambda>t. ''{}'') \<lparr>user_id = 1, isAdmin = False\<rparr>
        ''TRADITIONAL'' frenchStatement [tagRow 5] (idle statementStore)))) \<and>
   storeConsistent (committed (snd (snd
     (updateProblemStatement noFailure (\<lambda>c. c) (problemRow 1 None [''en'', ''zh''])
        frenchRequest [] (idle statementStore)))))"
proof -
  let ?C = "createProblem noFailure (\<lambda>c. c) (\<lambda>t. ''{}'') \<lparr>user_id = 1, isAdmin = False\<rparr>
        ''TRADITIONAL'' frenchStatement [tagRow 5] (idle statementStore)"
  let ?U = "updateProblemStatement noFailure (\<lambda>c. c) (problemRow 1 None [''en'', ''zh''])
        frenchRequest [] (idle statementStore)"
  have inv: "storeConsistent (committed (idle statementStore))"
    using statementStore_consistent by (simp add: idle_def)
  have mem: "problemRow 1 None [''en'', ''zh''] \<in> set (problems (committed (idle statementStore)))"
    by (simp add: idle_def statementStore_def emptyDatabase_def)
  have "fst ?C = Inr (problemRow 2 None [''fr''])"
    by (simp add: createProblem_def transaction_def createLocalizedContent_def run_defs
          noFailure_def problemRow_def frenchStatement_def tagRow_def idle_def
          statementStore_def emptyDatabase_def)
  then have c: "?C = (Inr (problemRow 2 None [''fr'']), snd ?C)"
    by (simp add: prod_eq_iff)
  have "fst ?U = Inr True"
    by (simp add: run_defs noFailure_def problemRow_def frenchRequest_def idle_def
          statementStore_def emptyDatabase_def)
  then have u: "?U = (Inr True, fst (snd ?U), snd (snd ?U))"
    by (simp add: prod_eq_iff)
  have complete: "\<forall>e \<in> set (requestLocalizedContents frenchRequest).
          requestLocale e \<notin> set (locales (problemRow 1 None [''en'', ''zh''])) \<longrightarrow>
          requestTitle e \<noteq> None \<and> requestContentSections e \<noteq> None"
    by (simp add: frenchRequest_def)
  from C2_locales_invariant[of "idle statementStore" noFailure "\<lambda>c. c" "\<lambda>t. ''{}''"
      "\<lparr>user_id = 1, isAdmin = False\<rparr>" "''TRADITIONAL''" frenchStatement "[tagRow 5]"
      "problemRow 2 None [''fr'']" "snd ?C"] inv c
  have "storeConsistent (committed (snd ?C))" by blast
  moreover
  from C2_locales_invariant[of "idle statementStore" noFailure "\<lambda>c. c" _ _ _ _ "[]" _ _
      "problemRow 1 None [''en'', ''zh'']" frenchRequest "fst (snd ?U)" "snd (snd ?U)"]
    inv mem u complete
  have "storeConsistent (committed (snd (snd ?U)))" by blast
  ultimately show ?thesis by simp
qed

end
